theory Spec2Isabelle
  imports Complex_Main "HOL-Library.Word" "HOL-Library.Signed_Division"
begin

unbundle bit_operations_syntax

section \<open>Errors\<close>

text \<open>
  Every way the C++ can leave the defined path is a value: an out-of-range vector access,
  a failed \<open>unordered_map::at\<close>, the \<open>assert\<close> of \<open>apply_action\<close>, an integer division by
  zero, a board text that does not parse, a recursion that does not come back within the given
  depth, and the use of a null pointer.
\<close>

datatype error =
    OutOfRange
  | KeyMissing
  | AssertionFailed
  | DivisionByZero
  | ParseError
  | DepthExceeded
  | NullDereference

definition bindE :: "error + 'a \<Rightarrow> ('a \<Rightarrow> error + 'b) \<Rightarrow> error + 'b" where
  "bindE m f = (case m of Inl e \<Rightarrow> Inl e | Inr x \<Rightarrow> f x)"

fun foldE :: "('a \<Rightarrow> 's \<Rightarrow> error + 's) \<Rightarrow> 'a list \<Rightarrow> 's \<Rightarrow> error + 's" where
  "foldE f [] s = Inr s"
| "foldE f (x # xs) s = bindE (f x s) (foldE f xs)"

definition at_map :: "('k \<rightharpoonup> 'v) \<Rightarrow> 'k \<Rightarrow> error + 'v" where
  "at_map m k = (case m k of None \<Rightarrow> Inl KeyMissing | Some v \<Rightarrow> Inr v)"

section \<open>The bounded blocking queue (queue.h)\<close>

text \<open>
  Each operation of \<open>ThreadedQueue\<close> runs under the queue's mutex, so it is a function of
  the queue's fields. An operation that reaches \<open>cv_.wait\<close> suspends its caller with the
  queue unchanged: the outcome \<open>Waits\<close>.
\<close>

record 'a ThreadedQueue =
  block_new_values :: bool
  max_size :: int
  q :: "'a list"

datatype 'r outcome = Returns 'r | Waits

definition ThreadedQueue_new :: "int \<Rightarrow> 'a ThreadedQueue" where
  "ThreadedQueue_new n = \<lparr>block_new_values = False, max_size = n, q = []\<rparr>"

definition ThreadedQueue_Push :: "'a \<Rightarrow> 'a ThreadedQueue \<Rightarrow> bool outcome \<times> 'a ThreadedQueue" where
  "ThreadedQueue_Push v Q =
     (if int (length (q Q)) \<ge> max_size Q then (Waits, Q)
      else (Returns True, Q\<lparr>q := q Q @ [v]\<rparr>))"

definition ThreadedQueue_Pop :: "'a ThreadedQueue \<Rightarrow> 'a option outcome \<times> 'a ThreadedQueue" where
  "ThreadedQueue_Pop Q =
     (case q Q of
        [] \<Rightarrow> (if block_new_values Q then (Returns None, Q) else (Waits, Q))
      | v # rest \<Rightarrow> (Returns (Some v), Q\<lparr>q := rest\<rparr>))"

definition ThreadedQueue_BlockNewValues :: "'a ThreadedQueue \<Rightarrow> 'a ThreadedQueue" where
  "ThreadedQueue_BlockNewValues Q = Q\<lparr>block_new_values := True\<rparr>"


section \<open>The game: elements, board, shared and local state\<close>

subsection \<open>The element catalogue\<close>

text \<open>
  Modelled from the spec: \<open>definitions.h\<close> (the \<open>Directions\<close> enumeration, the static
  \<open>Element\<close> catalogue, the property bits and the \<open>Board\<close> structure) is not among the
  sources. The direction encoding is the spec's: Noop=0, Up=1, Right=2, Down=3, Left=4,
  UpRight=5, DownRight=6, DownLeft=7, UpLeft=8, and the agent's actions are the first
  \<open>kNumActions = 5\<close> of them.
\<close>

datatype Directions =
  kNoop | kUp | kRight | kDown | kLeft | kUpRight | kDownRight | kDownLeft | kUpLeft

definition all_directions :: "Directions list" where
  "all_directions =
     [kNoop, kUp, kRight, kDown, kLeft, kUpRight, kDownRight, kDownLeft, kUpLeft]"

definition kNumActions :: nat where
  "kNumActions = 5"

definition action_directions :: "Directions list" where
  "action_directions = take kNumActions all_directions"

definition Directions_of_int :: "int \<Rightarrow> Directions option" where
  "Directions_of_int a =
     (if 0 \<le> a \<and> nat a < length all_directions then Some (all_directions ! nat a) else None)"

text \<open>
  Modelled from the spec: the catalogue of section 3. An \<open>Element\<close> is identified by its
  hidden cell type, so the grid holds elements; \<open>kNullElement\<close> is the cell code \<open>-1\<close> that
  stands for "unset". The source names \<open>kElExplosionEmpty\<close>; the spec lists three explosion
  stages beside it.
\<close>

datatype Color = Red | Blue | Green | Yellow

datatype ExplosionStage = Short | Long | Deep

datatype Element =
    kNullElement
  | kElAgent
  | kElEmpty
  | kElDirt
  | kElStone
  | kElStoneFalling
  | kElDiamond
  | kElDiamondFalling
  | kElExitClosed
  | kElExitOpen
  | kElAgentInExit
  | kElFirefly Directions
  | kElButterfly Directions
  | kElOrange Directions
  | kElWall
  | kElWallMagicDormant
  | kElWallMagicOn
  | kElWallMagicExpired
  | kElBlob
  | kElExplosionEmpty
  | kElExplosion ExplosionStage
  | kElGateClosed Color
  | kElGateOpen Color
  | kElKey Color
  | kElNut
  | kElNutFalling
  | kElBomb
  | kElBombFalling

datatype ElementProperties = kRounded | kCanExplode | kConsumable | kTraversable | kPushable

text \<open>
  Modelled from the spec: the membership tests of \<open>definitions.h\<close>, read off the catalogue.
\<close>

fun IsButterfly :: "Element \<Rightarrow> bool" where
  "IsButterfly (kElButterfly d) = True"
| "IsButterfly e = False"

fun IsFirefly :: "Element \<Rightarrow> bool" where
  "IsFirefly (kElFirefly d) = True"
| "IsFirefly e = False"

fun IsOrange :: "Element \<Rightarrow> bool" where
  "IsOrange (kElOrange d) = True"
| "IsOrange e = False"

fun IsMagicWall :: "Element \<Rightarrow> bool" where
  "IsMagicWall kElWallMagicDormant = True"
| "IsMagicWall kElWallMagicOn = True"
| "IsMagicWall kElWallMagicExpired = True"
| "IsMagicWall e = False"

fun IsExplosion :: "Element \<Rightarrow> bool" where
  "IsExplosion kElExplosionEmpty = True"
| "IsExplosion (kElExplosion k) = True"
| "IsExplosion e = False"

fun IsKey :: "Element \<Rightarrow> bool" where
  "IsKey (kElKey c) = True"
| "IsKey e = False"

fun IsOpenGate :: "Element \<Rightarrow> bool" where
  "IsOpenGate (kElGateOpen c) = True"
| "IsOpenGate e = False"

fun IsActionHorz :: "Directions \<Rightarrow> bool" where
  "IsActionHorz kLeft = True"
| "IsActionHorz kRight = True"
| "IsActionHorz d = False"

text \<open>
  The static tables of \<open>definitions.h\<close> whose contents the sources do not show are a
  parameter of every operation: the property bits of each element, the element maps, the
  rotation tables, the cell code of each element (\<open>ElementToItem\<close>) with its inverse
  (\<open>kCellTypeToElement\<close>), its visible cell type, the reward codes, and the stream of 64-bit values that
  \<open>std::mt19937\<close> with \<open>std::uniform_int_distribution\<close> draws for a seed.
\<close>

record tables =
  HasProp :: "Element \<Rightarrow> ElementProperties \<Rightarrow> bool"
  kElementToExplosion :: "Element \<rightharpoonup> Element"
  kExplosionToElement :: "Element \<rightharpoonup> Element"
  kMagicWallConversion :: "Element \<rightharpoonup> Element"
  kElToFalling :: "Element \<rightharpoonup> Element"
  kKeyToGate :: "Element \<rightharpoonup> Element"
  kGateOpenMap :: "Element \<rightharpoonup> Element"
  kKeyToSignal :: "Element \<rightharpoonup> 64 word"
  kGateToSignal :: "Element \<rightharpoonup> 64 word"
  kPointMap :: "Element \<rightharpoonup> int"
  kRotateLeft :: "Directions \<Rightarrow> Directions"
  kRotateRight :: "Directions \<Rightarrow> Directions"
  kDirectionToFirefly :: "Directions \<Rightarrow> Element"
  kDirectionToButterfly :: "Directions \<Rightarrow> Element"
  kDirectionToOrange :: "Directions \<Rightarrow> Element"
  kFireflyToDirection :: "Element \<rightharpoonup> Directions"
  kButterflyToDirection :: "Element \<rightharpoonup> Directions"
  kOrangeToDirection :: "Element \<rightharpoonup> Directions"
  ElementToItem :: "Element \<Rightarrow> int"
  kCellTypeToElement :: "int \<rightharpoonup> Element"
  kNumHiddenCellType :: int
  visible_type :: "Element \<Rightarrow> int"
  kNumVisibleCellType :: int
  kRewardCollectDiamond :: "64 word"
  kRewardCollectKey :: "64 word"
  kRewardWalkThroughGate :: "64 word"
  kRewardWalkThroughExit :: "64 word"
  mt19937_stream :: "int \<Rightarrow> nat \<Rightarrow> 64 word"

definition kAgentPosExit :: int where
  "kAgentPosExit = -1"

definition kAgentPosDie :: int where
  "kAgentPosDie = -2"

subsection \<open>Board, shared state, local state\<close>

text \<open>
  Modelled from the spec: the \<open>Board\<close> of section 3. \<open>item(i)\<close> is \<open>grid[i]\<close>.
\<close>

record Board =
  rows :: int
  cols :: int
  gems_required :: int
  max_steps :: int
  grid :: "Element list"
  has_updated :: "bool list"
  agent_pos :: int
  agent_idx :: int
  zorb_hash :: "64 word"

record GameParameters =
  p_obs_show_ids :: bool
  p_magic_wall_steps :: int
  p_blob_chance :: int
  p_blob_max_percentage :: real
  p_rng_seed :: int
  p_game_board_str :: "int list"
  p_gravity :: bool
  p_blob_swap :: int

record SharedStateInfo =
  params :: GameParameters
  obs_show_ids :: bool
  sh_magic_wall_steps :: "16 word"
  blob_chance :: "8 word"
  blob_max_size :: "16 word"
  blob_max_percentage :: real
  rng_seed :: int
  game_board_str :: "int list"
  gravity :: bool
  zrbht :: "int \<rightharpoonup> 64 word"
  in_bounds_board :: "bool list"
  board_to_inbounds :: "int list"

record LocalState =
  magic_wall_steps :: "16 word"
  blob_size :: "16 word"
  blob_swap :: Element
  gems_collected :: "8 word"
  current_reward :: "8 word"
  reward_signal :: "64 word"
  magic_active :: bool
  blob_enclosed :: bool
  steps_remaining :: int
  random_state :: "64 word"
  id_state :: "16 word"
  index_id_map :: "int \<rightharpoonup> 16 word"
  id_index_map :: "16 word \<rightharpoonup> int"

record RNDGameState =
  shared_state :: SharedStateInfo
  board :: Board
  local_state :: LocalState

definition SharedStateInfo_new :: "GameParameters \<Rightarrow> SharedStateInfo" where
  "SharedStateInfo_new ps =
     \<lparr>params = ps,
      obs_show_ids = p_obs_show_ids ps,
      sh_magic_wall_steps = word_of_int (p_magic_wall_steps ps),
      blob_chance = word_of_int (p_blob_chance ps),
      blob_max_size = 0,
      blob_max_percentage = p_blob_max_percentage ps,
      rng_seed = p_rng_seed ps,
      game_board_str = p_game_board_str ps,
      gravity = p_gravity ps,
      zrbht = Map.empty,
      in_bounds_board = [],
      board_to_inbounds = []\<rparr>"

definition LocalState_new :: LocalState where
  "LocalState_new =
     \<lparr>magic_wall_steps = 0,
      blob_size = 0,
      blob_swap = kNullElement,
      gems_collected = 0,
      current_reward = 0,
      reward_signal = 0,
      magic_active = False,
      blob_enclosed = True,
      steps_remaining = -1,
      random_state = 1,
      id_state = 0,
      index_id_map = Map.empty,
      id_index_map = Map.empty\<rparr>"

text \<open>
  \<open>LocalState::operator==\<close> compares five fields. \<open>Board::operator==\<close> is declared in
  \<open>definitions.h\<close>; it is the parameter \<open>board_eq\<close> of the state comparison.
\<close>

definition LocalState_eq :: "LocalState \<Rightarrow> LocalState \<Rightarrow> bool" where
  "LocalState_eq l other =
     (magic_wall_steps l = magic_wall_steps other \<and> blob_size l = blob_size other \<and>
      gems_collected l = gems_collected other \<and> magic_active l = magic_active other \<and>
      blob_enclosed l = blob_enclosed other)"

definition RNDGameState_eq ::
  "(Board \<Rightarrow> Board \<Rightarrow> bool) \<Rightarrow> RNDGameState \<Rightarrow> RNDGameState \<Rightarrow> bool" where
  "RNDGameState_eq board_eq s other =
     (LocalState_eq (local_state s) (local_state other) \<and> board_eq (board s) (board other))"


section \<open>The simulator (stonesngems\_base.cpp)\<close>

subsection \<open>Random numbers\<close>

definition splitmix64 :: "64 word \<Rightarrow> 64 word" where
  "splitmix64 seed =
     (let r0 = seed + 0x9E3779B97f4A7C15;
          r1 = (r0 XOR drop_bit 30 r0) * 0xBF58476D1CE4E5B9;
          r2 = (r1 XOR drop_bit 27 r1) * 0x94D049BB133111EB
      in r2 XOR drop_bit 31 r2)"

definition xorshift64 :: "64 word \<Rightarrow> 64 word" where
  "xorshift64 x0 =
     (let x1 = x0 XOR push_bit 13 x0;
          x2 = x1 XOR drop_bit 7 x1
      in x2 XOR push_bit 17 x2)"

subsection \<open>Indexing and reading the board\<close>

definition IndexFromAction :: "RNDGameState \<Rightarrow> int \<Rightarrow> Directions \<Rightarrow> int" where
  "IndexFromAction s index action =
     (case action of
        kNoop \<Rightarrow> index
      | kUp \<Rightarrow> index - cols (board s)
      | kRight \<Rightarrow> index + 1
      | kDown \<Rightarrow> index + cols (board s)
      | kLeft \<Rightarrow> index - 1
      | kUpRight \<Rightarrow> index - cols (board s) + 1
      | kDownRight \<Rightarrow> index + cols (board s) + 1
      | kUpLeft \<Rightarrow> index - cols (board s) - 1
      | kDownLeft \<Rightarrow> index + cols (board s) - 1)"

definition BoundsIndexFromAction :: "RNDGameState \<Rightarrow> int \<Rightarrow> Directions \<Rightarrow> int" where
  "BoundsIndexFromAction s index action =
     (case action of
        kNoop \<Rightarrow> index
      | kUp \<Rightarrow> index - (cols (board s) + 2)
      | kRight \<Rightarrow> index + 1
      | kDown \<Rightarrow> index + (cols (board s) + 2)
      | kLeft \<Rightarrow> index - 1
      | kUpRight \<Rightarrow> index - (cols (board s) + 2) + 1
      | kDownRight \<Rightarrow> index + (cols (board s) + 2) + 1
      | kUpLeft \<Rightarrow> index - (cols (board s) + 2) - 1
      | kDownLeft \<Rightarrow> index + (cols (board s) + 2) - 1)"

text \<open>
  The reads below are the source's unchecked \<open>operator[]\<close>. Every call site but two passes
  a cell index of the scan or one that an \<open>InBounds\<close> test has just accepted; the two that
  can pass an index outside the board (\<open>UpdateAgent\<close> on \<open>agent_idx\<close>, \<open>MoveThroughMagic\<close>
  on the cell under the wall) test the index first and fail with \<open>OutOfRange\<close>. Every write
  to the board is checked where it happens (\<open>item\<close>, \<open>SetItem\<close>, \<open>MoveItem\<close>).
\<close>

definition InBounds :: "RNDGameState \<Rightarrow> int \<Rightarrow> Directions \<Rightarrow> bool" where
  "InBounds s index action =
     in_bounds_board (shared_state s) !
       nat (BoundsIndexFromAction s (board_to_inbounds (shared_state s) ! nat index) action)"

definition index_readable :: "RNDGameState \<Rightarrow> int \<Rightarrow> bool" where
  "index_readable s index =
     (0 \<le> index \<and> nat index < length (board_to_inbounds (shared_state s)))"

definition GetItem :: "RNDGameState \<Rightarrow> int \<Rightarrow> Directions \<Rightarrow> Element" where
  "GetItem s index action = grid (board s) ! nat (IndexFromAction s index action)"

definition IsType :: "RNDGameState \<Rightarrow> int \<Rightarrow> Element \<Rightarrow> Directions \<Rightarrow> bool" where
  "IsType s index element action =
     (let new_index = IndexFromAction s index action
      in InBounds s index action \<and> GetItem s new_index kNoop = element)"

definition HasProperty ::
  "tables \<Rightarrow> RNDGameState \<Rightarrow> int \<Rightarrow> ElementProperties \<Rightarrow> Directions \<Rightarrow> bool" where
  "HasProperty T s index property action =
     (let new_index = IndexFromAction s index action
      in InBounds s index action \<and> HasProp T (GetItem s new_index kNoop) property)"

definition IsTypeAdjacent :: "RNDGameState \<Rightarrow> int \<Rightarrow> Element \<Rightarrow> bool" where
  "IsTypeAdjacent s index element =
     (IsType s index element kUp \<or> IsType s index element kLeft \<or>
      IsType s index element kDown \<or> IsType s index element kRight)"

definition item :: "Board \<Rightarrow> int \<Rightarrow> error + Element" where
  "item b i = (if 0 \<le> i \<and> nat i < length (grid b) then Inr (grid b ! nat i) else Inl OutOfRange)"

definition zkey :: "tables \<Rightarrow> Board \<Rightarrow> Element \<Rightarrow> int \<Rightarrow> int" where
  "zkey T b el i = ElementToItem T el * cols b * rows b + i"

subsection \<open>Trackable ids\<close>

definition UpdateIDIndex :: "int \<Rightarrow> int \<Rightarrow> RNDGameState \<Rightarrow> RNDGameState" where
  "UpdateIDIndex index_old index_new s =
     (let l = local_state s in
      case index_id_map l index_old of
        None \<Rightarrow> s
      | Some ident \<Rightarrow>
          s\<lparr>local_state := l\<lparr>index_id_map := ((index_id_map l)(index_old := None))(index_new \<mapsto> ident),
                               id_index_map := (id_index_map l)(ident \<mapsto> index_new)\<rparr>\<rparr>)"

definition UpdateIndexID :: "int \<Rightarrow> RNDGameState \<Rightarrow> RNDGameState" where
  "UpdateIndexID index s =
     (let l = local_state s in
      case index_id_map l index of
        None \<Rightarrow> s
      | Some id_old \<Rightarrow>
          (let id_new = id_state l + 1 in
           s\<lparr>local_state := l\<lparr>id_state := id_new,
                                id_index_map := ((id_index_map l)(id_old := None))(id_new \<mapsto> index),
                                index_id_map := (index_id_map l)(index \<mapsto> id_new)\<rparr>\<rparr>))"

definition trackable :: "Element \<Rightarrow> bool" where
  "trackable e =
     (e = kElStone \<or> e = kElStoneFalling \<or> e = kElDiamond \<or> e = kElDiamondFalling \<or>
      e = kElNut \<or> e = kElNutFalling)"

definition AddIndexID :: "int \<Rightarrow> RNDGameState \<Rightarrow> RNDGameState" where
  "AddIndexID index s =
     (let l = local_state s in
      if trackable (grid (board s) ! nat index) then
        (let ident = id_state l + 1 in
         s\<lparr>local_state := l\<lparr>id_state := ident,
                              id_index_map := (id_index_map l)(ident \<mapsto> index),
                              index_id_map := (index_id_map l)(index \<mapsto> ident)\<rparr>\<rparr>)
      else s)"

definition RemoveIndexID :: "int \<Rightarrow> RNDGameState \<Rightarrow> RNDGameState" where
  "RemoveIndexID index s =
     (let l = local_state s in
      case index_id_map l index of
        None \<Rightarrow> s
      | Some ident \<Rightarrow>
          s\<lparr>local_state := l\<lparr>id_index_map := (id_index_map l)(ident := None),
                               index_id_map := (index_id_map l)(index := None)\<rparr>\<rparr>)"

subsection \<open>Writing the board\<close>

definition MoveItem :: "tables \<Rightarrow> int \<Rightarrow> Directions \<Rightarrow> RNDGameState \<Rightarrow> error + RNDGameState" where
  "MoveItem T index action s =
     (let b = board s; sh = shared_state s; new_index = IndexFromAction s index action in
      bindE (item b new_index) (\<lambda>old_new.
      bindE (at_map (zrbht sh) (zkey T b old_new new_index)) (\<lambda>z1.
      bindE (item b index) (\<lambda>moved.
      bindE (at_map (zrbht sh) (zkey T b moved new_index)) (\<lambda>z2.
      let g1 = (grid b)[nat new_index := moved] in
      bindE (at_map (zrbht sh) (zkey T b (g1 ! nat index) index)) (\<lambda>z3.
      bindE (at_map (zrbht sh) (zkey T b kElEmpty index)) (\<lambda>z4.
      if nat new_index < length (has_updated b) then
        Inr (UpdateIDIndex index new_index
               (s\<lparr>board := b\<lparr>grid := g1[nat index := kElEmpty],
                               zorb_hash := zorb_hash b XOR z1 XOR z2 XOR z3 XOR z4,
                               has_updated := (has_updated b)[nat new_index := True]\<rparr>\<rparr>))
      else Inl OutOfRange)))))))"

definition SetItem ::
  "tables \<Rightarrow> int \<Rightarrow> Element \<Rightarrow> Directions \<Rightarrow> RNDGameState \<Rightarrow> error + RNDGameState" where
  "SetItem T index element action s =
     (let b = board s; sh = shared_state s; new_index = IndexFromAction s index action in
      bindE (item b new_index) (\<lambda>old.
      bindE (at_map (zrbht sh) (zkey T b old new_index)) (\<lambda>z1.
      bindE (at_map (zrbht sh) (zkey T b element new_index)) (\<lambda>z2.
      if nat new_index < length (has_updated b) then
        Inr (s\<lparr>board := b\<lparr>grid := (grid b)[nat new_index := element],
                            zorb_hash := zorb_hash b XOR z1 XOR z2,
                            has_updated := (has_updated b)[nat new_index := True]\<rparr>\<rparr>)
      else Inl OutOfRange))))"

definition set_agent_pos :: "int \<Rightarrow> RNDGameState \<Rightarrow> RNDGameState" where
  "set_agent_pos p s = s\<lparr>board := (board s)\<lparr>agent_pos := p\<rparr>\<rparr>"

definition set_agent_idx :: "int \<Rightarrow> RNDGameState \<Rightarrow> RNDGameState" where
  "set_agent_idx p s = s\<lparr>board := (board s)\<lparr>agent_idx := p\<rparr>\<rparr>"

definition set_local :: "(LocalState \<Rightarrow> LocalState) \<Rightarrow> RNDGameState \<Rightarrow> RNDGameState" where
  "set_local f s = s\<lparr>local_state := f (local_state s)\<rparr>"

subsection \<open>Rolling, pushing, magic walls, explosions\<close>

definition CanRollLeft :: "tables \<Rightarrow> RNDGameState \<Rightarrow> int \<Rightarrow> bool" where
  "CanRollLeft T s index =
     (HasProperty T s index kRounded kDown \<and> IsType s index kElEmpty kLeft \<and>
      IsType s index kElEmpty kDownLeft)"

definition CanRollRight :: "tables \<Rightarrow> RNDGameState \<Rightarrow> int \<Rightarrow> bool" where
  "CanRollRight T s index =
     (HasProperty T s index kRounded kDown \<and> IsType s index kElEmpty kRight \<and>
      IsType s index kElEmpty kDownRight)"

definition RollLeft :: "tables \<Rightarrow> int \<Rightarrow> Element \<Rightarrow> RNDGameState \<Rightarrow> error + RNDGameState" where
  "RollLeft T index element s =
     bindE (SetItem T index element kNoop s) (MoveItem T index kLeft)"

definition RollRight :: "tables \<Rightarrow> int \<Rightarrow> Element \<Rightarrow> RNDGameState \<Rightarrow> error + RNDGameState" where
  "RollRight T index element s =
     bindE (SetItem T index element kNoop s) (MoveItem T index kRight)"

definition Push ::
  "tables \<Rightarrow> int \<Rightarrow> Element \<Rightarrow> Element \<Rightarrow> Directions \<Rightarrow> RNDGameState \<Rightarrow> error + RNDGameState" where
  "Push T index stationary falling action s =
     (let new_index = IndexFromAction s index action in
      if IsType s new_index kElEmpty action then
        (let next_index = IndexFromAction s new_index action;
             is_empty = IsType s next_index kElEmpty kDown in
         bindE (MoveItem T new_index action s) (\<lambda>s1.
         bindE (SetItem T next_index (if is_empty then falling else stationary) kNoop s1) (\<lambda>s2.
         bindE (MoveItem T index action s2) (\<lambda>s3.
         Inr (set_agent_idx (IndexFromAction s3 index action)
               (set_agent_pos (IndexFromAction s3 index action) s3))))))
      else Inr s)"

definition MoveThroughMagic :: "tables \<Rightarrow> int \<Rightarrow> Element \<Rightarrow> RNDGameState \<Rightarrow> error + RNDGameState" where
  "MoveThroughMagic T index element s =
     (if uint (magic_wall_steps (local_state s)) \<le> 0 then Inr s
      else
        (let s1 = set_local (\<lambda>l. l\<lparr>magic_active := True\<rparr>) s;
             index_wall = IndexFromAction s1 index kDown;
             index_under_wall = IndexFromAction s1 index_wall kDown in
         if \<not> index_readable s1 index_under_wall then Inl OutOfRange
         else if IsType s1 index_under_wall kElEmpty kNoop then
           bindE (SetItem T index kElEmpty kNoop s1) (\<lambda>s2.
           bindE (SetItem T index_under_wall element kNoop s2) (\<lambda>s3.
           Inr (UpdateIDIndex index index_under_wall s3)))
         else Inr s1))"

definition explosion_of :: "tables \<Rightarrow> Element \<Rightarrow> Element" where
  "explosion_of T e = (case kElementToExplosion T e of None \<Rightarrow> kElExplosionEmpty | Some ex \<Rightarrow> ex)"

text \<open>
  \<open>Explode\<close> calls itself for every neighbour that can explode. The first argument bounds
  the depth of that recursion: a call that would go deeper fails with \<open>DepthExceeded\<close>, so
  a run of the C++ that returns is a run of the model with some bound.
\<close>

primrec Explode ::
  "nat \<Rightarrow> tables \<Rightarrow> int \<Rightarrow> Element \<Rightarrow> Directions \<Rightarrow> RNDGameState \<Rightarrow> error + RNDGameState" where
  "Explode 0 T index element action s = Inl DepthExceeded"
| "Explode (Suc depth) T index element action s =
     (let new_index = IndexFromAction s index action;
          ex = explosion_of T (GetItem s new_index kNoop);
          s1 = (if GetItem s new_index kNoop = kElAgent then set_agent_pos kAgentPosDie s else s) in
      bindE (SetItem T new_index element kNoop s1) (\<lambda>s2.
      foldE (\<lambda>dir s3.
           if dir = kNoop \<or> \<not> InBounds s3 new_index dir then Inr s3
           else if HasProperty T s3 new_index kCanExplode dir then
             Explode depth T new_index ex dir s3
           else if HasProperty T s3 new_index kConsumable dir then
             bindE (SetItem T new_index ex dir s3) (\<lambda>s4.
               Inr (if GetItem s4 new_index dir = kElAgent then set_agent_pos kAgentPosDie s4 else s4))
           else Inr s3)
        all_directions (RemoveIndexID new_index s2)))"


subsection \<open>The update rules\<close>

definition UpdateStoneFalling :: "nat \<Rightarrow> tables \<Rightarrow> int \<Rightarrow> RNDGameState \<Rightarrow> error + RNDGameState" where
  "UpdateStoneFalling depth T index s =
     (if IsType s index kElEmpty kDown then MoveItem T index kDown s
      else if HasProperty T s index kCanExplode kDown then
        Explode depth T index (explosion_of T (GetItem s index kDown)) kDown s
      else if IsType s index kElWallMagicOn kDown \<or> IsType s index kElWallMagicDormant kDown then
        bindE (at_map (kMagicWallConversion T) (GetItem s index kNoop)) (\<lambda>converted.
          MoveThroughMagic T index converted s)
      else if IsType s index kElNut kDown then
        bindE (SetItem T index kElDiamond kDown s) (\<lambda>s1.
          Inr (UpdateIndexID (IndexFromAction s1 index kDown) s1))
      else if IsType s index kElNut kDown then
        Explode depth T index (explosion_of T (GetItem s index kNoop)) kNoop s
      else if CanRollLeft T s index then RollLeft T index kElStoneFalling s
      else if CanRollRight T s index then RollRight T index kElStoneFalling s
      else SetItem T index kElStone kNoop s)"

definition UpdateStone :: "nat \<Rightarrow> tables \<Rightarrow> int \<Rightarrow> RNDGameState \<Rightarrow> error + RNDGameState" where
  "UpdateStone depth T index s =
     (if \<not> gravity (shared_state s) then Inr s
      else if IsType s index kElEmpty kDown then
        bindE (SetItem T index kElStoneFalling kNoop s) (UpdateStoneFalling depth T index)
      else if CanRollLeft T s index then RollLeft T index kElStoneFalling s
      else if CanRollRight T s index then RollRight T index kElStoneFalling s
      else Inr s)"

definition UpdateDiamondFalling :: "nat \<Rightarrow> tables \<Rightarrow> int \<Rightarrow> RNDGameState \<Rightarrow> error + RNDGameState" where
  "UpdateDiamondFalling depth T index s =
     (if IsType s index kElEmpty kDown then MoveItem T index kDown s
      else if HasProperty T s index kCanExplode kDown \<and> \<not> IsType s index kElBomb kDown \<and>
              \<not> IsType s index kElBombFalling kDown then
        Explode depth T index (explosion_of T (GetItem s index kDown)) kDown s
      else if IsType s index kElWallMagicOn kDown \<or> IsType s index kElWallMagicDormant kDown then
        bindE (at_map (kMagicWallConversion T) (GetItem s index kNoop)) (\<lambda>converted.
          MoveThroughMagic T index converted s)
      else if CanRollLeft T s index then RollLeft T index kElDiamondFalling s
      else if CanRollRight T s index then RollRight T index kElDiamondFalling s
      else SetItem T index kElDiamond kNoop s)"

definition UpdateDiamond :: "nat \<Rightarrow> tables \<Rightarrow> int \<Rightarrow> RNDGameState \<Rightarrow> error + RNDGameState" where
  "UpdateDiamond depth T index s =
     (if \<not> gravity (shared_state s) then Inr s
      else if IsType s index kElEmpty kDown then
        bindE (SetItem T index kElDiamondFalling kNoop s) (UpdateDiamondFalling depth T index)
      else if CanRollLeft T s index then RollLeft T index kElDiamondFalling s
      else if CanRollRight T s index then RollRight T index kElDiamondFalling s
      else Inr s)"

definition UpdateNutFalling :: "tables \<Rightarrow> int \<Rightarrow> RNDGameState \<Rightarrow> error + RNDGameState" where
  "UpdateNutFalling T index s =
     (if IsType s index kElEmpty kDown then MoveItem T index kDown s
      else if CanRollLeft T s index then RollLeft T index kElNutFalling s
      else if CanRollRight T s index then RollRight T index kElNutFalling s
      else SetItem T index kElNut kNoop s)"

definition UpdateNut :: "tables \<Rightarrow> int \<Rightarrow> RNDGameState \<Rightarrow> error + RNDGameState" where
  "UpdateNut T index s =
     (if \<not> gravity (shared_state s) then Inr s
      else if IsType s index kElEmpty kDown then
        bindE (SetItem T index kElNutFalling kNoop s) (UpdateNutFalling T index)
      else if CanRollLeft T s index then RollLeft T index kElNutFalling s
      else if CanRollRight T s index then RollRight T index kElNutFalling s
      else Inr s)"

definition UpdateBombFalling :: "nat \<Rightarrow> tables \<Rightarrow> int \<Rightarrow> RNDGameState \<Rightarrow> error + RNDGameState" where
  "UpdateBombFalling depth T index s =
     (if IsType s index kElEmpty kDown then MoveItem T index kDown s
      else if CanRollLeft T s index then RollLeft T index kElBombFalling s
      else if CanRollRight T s index then RollRight T index kElBombFalling s
      else Explode depth T index (explosion_of T (GetItem s index kNoop)) kNoop s)"

definition UpdateBomb :: "nat \<Rightarrow> tables \<Rightarrow> int \<Rightarrow> RNDGameState \<Rightarrow> error + RNDGameState" where
  "UpdateBomb depth T index s =
     (if \<not> gravity (shared_state s) then Inr s
      else if IsType s index kElEmpty kDown then
        bindE (SetItem T index kElBombFalling kNoop s) (UpdateBombFalling depth T index)
      else if CanRollLeft T s index then RollLeft T index kElBomb s
      else if CanRollRight T s index then RollRight T index kElBomb s
      else Inr s)"

definition UpdateExit :: "tables \<Rightarrow> int \<Rightarrow> RNDGameState \<Rightarrow> error + RNDGameState" where
  "UpdateExit T index s =
     (if uint (gems_collected (local_state s)) \<ge> gems_required (board s) then
        SetItem T index kElExitOpen kNoop s
      else Inr s)"

text \<open>
  Modelled from the spec: \<open>Board::find_all\<close> (in \<open>definitions.h\<close>) lists, in ascending
  order, the indices of the cells that hold the given cell code.
\<close>

definition find_all :: "tables \<Rightarrow> Board \<Rightarrow> int \<Rightarrow> int list" where
  "find_all T b code =
     map int (filter (\<lambda>i. ElementToItem T (grid b ! i) = code) [0..<length (grid b)])"

definition OpenGate :: "tables \<Rightarrow> Element \<Rightarrow> RNDGameState \<Rightarrow> error + RNDGameState" where
  "OpenGate T element s =
     foldE (\<lambda>index s1.
         bindE (at_map (kGateOpenMap T) (GetItem s1 index kNoop)) (\<lambda>opened.
           SetItem T index opened kNoop s1))
       (find_all T (board s) (ElementToItem T element)) s"

text \<open>
  The C++ \<open>int\<close> is modelled as an unbounded integer; \<open>uint8_t\<close>, \<open>uint16_t\<close> and
  \<open>uint64_t\<close> are words and wrap. \<open>/\<close> on \<open>int\<close> truncates towards zero (\<open>sdiv\<close>), and a
  zero divisor is the error \<open>DivisionByZero\<close>.
\<close>

definition UpdateAgent :: "tables \<Rightarrow> int \<Rightarrow> Directions \<Rightarrow> RNDGameState \<Rightarrow> error + RNDGameState" where
  "UpdateAgent T index action s =
     (if \<not> index_readable s index then Inl OutOfRange
      else if \<not> InBounds s index action then Inr s
      else if IsType s index kElEmpty action \<or> IsType s index kElDirt action then
        bindE (MoveItem T index action s) (\<lambda>s1.
          Inr (set_agent_idx (IndexFromAction s1 index action)
                (set_agent_pos (IndexFromAction s1 index action) s1)))
      else if IsType s index kElDiamond action \<or> IsType s index kElDiamondFalling action then
        bindE (at_map (kPointMap T) (GetItem s index action)) (\<lambda>points.
        let s1 = set_local (\<lambda>l. l\<lparr>gems_collected := gems_collected l + 1,
                                     current_reward := word_of_int (uint (current_reward l) + points),
                                     reward_signal := reward_signal l OR kRewardCollectDiamond T\<rparr>) s in
        bindE (MoveItem T index action s1) (\<lambda>s2.
        let s3 = RemoveIndexID (IndexFromAction s2 index action) s2 in
          Inr (set_agent_idx (IndexFromAction s3 index action)
                (set_agent_pos (IndexFromAction s3 index action) s3))))
      else if IsActionHorz action \<and> HasProperty T s index kPushable action then
        bindE (at_map (kElToFalling T) (GetItem s index action)) (\<lambda>falling.
          Push T index (GetItem s index action) falling action s)
      else if IsKey (GetItem s index action) then
        (let key_type = GetItem s index action in
         bindE (at_map (kKeyToGate T) key_type) (\<lambda>gate.
         bindE (OpenGate T gate s) (\<lambda>s1.
         bindE (MoveItem T index action s1) (\<lambda>s2.
         let s3 = set_agent_idx (IndexFromAction s2 index action)
                    (set_agent_pos (IndexFromAction s2 index action) s2) in
         bindE (at_map (kKeyToSignal T) key_type) (\<lambda>signal.
           Inr (set_local (\<lambda>l. l\<lparr>reward_signal :=
                   reward_signal l OR kRewardCollectKey T OR signal\<rparr>) s3))))))
      else if IsOpenGate (GetItem s index action) then
        (let index_gate = IndexFromAction s index action in
         if HasProperty T s index_gate kTraversable action then
           bindE
             (if IsType s index_gate kElDiamond action \<or>
                 IsType s index_gate kElDiamondFalling action then
                bindE (at_map (kPointMap T) (GetItem s index_gate action)) (\<lambda>points.
                  Inr (set_local (\<lambda>l. l\<lparr>gems_collected := gems_collected l + 1,
                          current_reward := word_of_int (uint (current_reward l) + points),
                          reward_signal := reward_signal l OR kRewardCollectDiamond T\<rparr>) s))
              else if IsKey (GetItem s index_gate action) then
                (let key_type = GetItem s index_gate action in
                 bindE (at_map (kKeyToGate T) key_type) (\<lambda>gate.
                 bindE (OpenGate T gate s) (\<lambda>s1.
                 bindE (at_map (kKeyToSignal T) key_type) (\<lambda>signal.
                   Inr (set_local (\<lambda>l. l\<lparr>reward_signal :=
                           reward_signal l OR kRewardCollectKey T OR signal\<rparr>) s1)))))
              else Inr s)
             (\<lambda>s1.
           bindE (SetItem T index_gate kElAgent action s1) (\<lambda>s2.
           bindE (SetItem T index kElEmpty kNoop s2) (\<lambda>s3.
           let s4 = set_agent_idx (IndexFromAction s3 index_gate action)
                      (set_agent_pos (IndexFromAction s3 index_gate action) s3) in
           bindE (at_map (kGateToSignal T) (GetItem s4 index_gate kNoop)) (\<lambda>signal.
             Inr (set_local (\<lambda>l. l\<lparr>reward_signal :=
                     reward_signal l OR kRewardWalkThroughGate T OR signal\<rparr>) s4)))))
         else Inr s)
      else if IsType s index kElExitOpen action then
        bindE (MoveItem T index action s) (\<lambda>s1.
        bindE (SetItem T index kElAgentInExit action s1) (\<lambda>s2.
        let s3 = set_agent_idx (IndexFromAction s2 index action) (set_agent_pos kAgentPosExit s2);
            s4 = set_local (\<lambda>l. l\<lparr>reward_signal :=
                   reward_signal l OR kRewardWalkThroughExit T\<rparr>) s3 in
        if max_steps (board s4) = 0 then Inl DivisionByZero
        else Inr (set_local (\<lambda>l. l\<lparr>current_reward := word_of_int (uint (current_reward l) +
                     (steps_remaining l * 100) sdiv max_steps (board s4))\<rparr>) s4)))
      else Inr s)"

definition UpdateFirefly ::
  "nat \<Rightarrow> tables \<Rightarrow> int \<Rightarrow> Directions \<Rightarrow> RNDGameState \<Rightarrow> error + RNDGameState" where
  "UpdateFirefly depth T index action s =
     (let new_dir = kRotateLeft T action in
      if IsTypeAdjacent s index kElAgent \<or> IsTypeAdjacent s index kElBlob then
        Explode depth T index (explosion_of T (GetItem s index kNoop)) kNoop s
      else if IsType s index kElEmpty new_dir then
        bindE (SetItem T index (kDirectionToFirefly T new_dir) kNoop s) (MoveItem T index new_dir)
      else if IsType s index kElEmpty action then
        bindE (SetItem T index (kDirectionToFirefly T action) kNoop s) (MoveItem T index action)
      else SetItem T index (kDirectionToFirefly T (kRotateRight T action)) kNoop s)"

definition UpdateButterfly ::
  "nat \<Rightarrow> tables \<Rightarrow> int \<Rightarrow> Directions \<Rightarrow> RNDGameState \<Rightarrow> error + RNDGameState" where
  "UpdateButterfly depth T index action s =
     (let new_dir = kRotateRight T action in
      if IsTypeAdjacent s index kElAgent \<or> IsTypeAdjacent s index kElBlob then
        Explode depth T index (explosion_of T (GetItem s index kNoop)) kNoop s
      else if IsType s index kElEmpty new_dir then
        bindE (SetItem T index (kDirectionToButterfly T new_dir) kNoop s) (MoveItem T index new_dir)
      else if IsType s index kElEmpty action then
        bindE (SetItem T index (kDirectionToButterfly T action) kNoop s) (MoveItem T index action)
      else SetItem T index (kDirectionToButterfly T (kRotateLeft T action)) kNoop s)"

definition UpdateOrange ::
  "nat \<Rightarrow> tables \<Rightarrow> int \<Rightarrow> Directions \<Rightarrow> RNDGameState \<Rightarrow> error + RNDGameState" where
  "UpdateOrange depth T index action s =
     (if IsType s index kElEmpty action then MoveItem T index action s
      else if IsTypeAdjacent s index kElAgent then
        Explode depth T index (explosion_of T (GetItem s index kNoop)) kNoop s
      else
        (let open_dirs = filter (\<lambda>dir. dir \<noteq> kNoop \<and> InBounds s index dir \<and>
                                       IsType s index kElEmpty dir) action_directions in
         if open_dirs \<noteq> [] then
           (let r = xorshift64 (random_state (local_state s));
                s1 = set_local (\<lambda>l. l\<lparr>random_state := r\<rparr>) s;
                new_dir = open_dirs ! (unat r mod length open_dirs) in
            SetItem T index (kDirectionToOrange T new_dir) kNoop s1)
         else Inr s))"

definition UpdateMagicWall :: "tables \<Rightarrow> int \<Rightarrow> RNDGameState \<Rightarrow> error + RNDGameState" where
  "UpdateMagicWall T index s =
     (if magic_active (local_state s) then SetItem T index kElWallMagicOn kNoop s
      else if uint (magic_wall_steps (local_state s)) > 0 then
        SetItem T index kElWallMagicDormant kNoop s
      else SetItem T index kElWallMagicExpired kNoop s)"

definition UpdateBlob :: "tables \<Rightarrow> int \<Rightarrow> RNDGameState \<Rightarrow> error + RNDGameState" where
  "UpdateBlob T index s =
     (if blob_swap (local_state s) \<noteq> kNullElement then
        bindE (SetItem T index (blob_swap (local_state s)) kNoop s) (\<lambda>s1. Inr (AddIndexID index s1))
      else
        (let s1 = set_local (\<lambda>l. l\<lparr>blob_size := blob_size l + 1\<rparr>) s;
             s2 = (if IsTypeAdjacent s1 index kElEmpty \<or> IsTypeAdjacent s1 index kElDirt
                   then set_local (\<lambda>l. l\<lparr>blob_enclosed := False\<rparr>) s1 else s1);
             r1 = xorshift64 (random_state (local_state s2));
             will_grow = (unat r1 mod 256 < unat (blob_chance (shared_state s2)));
             r2 = xorshift64 r1;
             grow_dir = all_directions ! (unat r2 mod kNumActions);
             s3 = set_local (\<lambda>l. l\<lparr>random_state := r2\<rparr>) s2 in
         if will_grow \<and> (IsType s3 index kElEmpty grow_dir \<or> IsType s3 index kElDirt grow_dir) then
           bindE (SetItem T index kElBlob grow_dir s3) (\<lambda>s4.
             Inr (RemoveIndexID (IndexFromAction s4 index grow_dir) s4))
         else Inr s3))"

definition UpdateExplosions :: "tables \<Rightarrow> int \<Rightarrow> RNDGameState \<Rightarrow> error + RNDGameState" where
  "UpdateExplosions T index s =
     bindE (at_map (kExplosionToElement T) (GetItem s index kNoop)) (\<lambda>next_stage.
     bindE (SetItem T index next_stage kNoop s) (\<lambda>s1. Inr (AddIndexID index s1)))"

subsection \<open>One tick\<close>

text \<open>
  Modelled from the spec: \<open>Board::reset_updated\<close> (in \<open>definitions.h\<close>) clears every
  entry of \<open>has_updated\<close>.
\<close>

definition reset_updated :: "Board \<Rightarrow> Board" where
  "reset_updated b = b\<lparr>has_updated := map (\<lambda>u. False) (has_updated b)\<rparr>"

definition StartScan :: "RNDGameState \<Rightarrow> RNDGameState" where
  "StartScan s =
     (let l = local_state s;
          l1 = (if steps_remaining l > 0 then l\<lparr>steps_remaining := steps_remaining l + (-1)\<rparr> else l);
          l2 = l1\<lparr>current_reward := 0, blob_size := 0, blob_enclosed := True, reward_signal := 0\<rparr>
      in s\<lparr>local_state := l2, board := reset_updated (board s)\<rparr>)"

definition EndScan :: "RNDGameState \<Rightarrow> RNDGameState" where
  "EndScan s =
     (let l = local_state s;
          l1 = (if blob_swap l = kNullElement then
                  (let la = (if blob_enclosed l then l\<lparr>blob_swap := kElDiamond\<rparr> else l) in
                   if unat (blob_size la) > unat (blob_max_size (shared_state s))
                   then la\<lparr>blob_swap := kElStone\<rparr> else la)
                else l);
          l2 = (if magic_active l1
                then l1\<lparr>magic_wall_steps := word_of_int (max (uint (magic_wall_steps l1) - 1) 0)\<rparr>
                else l1);
          l3 = l2\<lparr>magic_active := (magic_active l2 \<and> uint (magic_wall_steps l2) > 0)\<rparr>
      in s\<lparr>local_state := l3\<rparr>)"

definition update_cell :: "nat \<Rightarrow> tables \<Rightarrow> nat \<Rightarrow> RNDGameState \<Rightarrow> error + RNDGameState" where
  "update_cell depth T i s =
     (if has_updated (board s) ! i then Inr s
      else
        (case grid (board s) ! i of
           kElStone \<Rightarrow> UpdateStone depth T (int i) s
         | kElStoneFalling \<Rightarrow> UpdateStoneFalling depth T (int i) s
         | kElDiamond \<Rightarrow> UpdateDiamond depth T (int i) s
         | kElDiamondFalling \<Rightarrow> UpdateDiamondFalling depth T (int i) s
         | kElNut \<Rightarrow> UpdateNut T (int i) s
         | kElNutFalling \<Rightarrow> UpdateNutFalling T (int i) s
         | kElBomb \<Rightarrow> UpdateBomb depth T (int i) s
         | kElBombFalling \<Rightarrow> UpdateBombFalling depth T (int i) s
         | kElExitClosed \<Rightarrow> UpdateExit T (int i) s
         | kElBlob \<Rightarrow> UpdateBlob T (int i) s
         | element \<Rightarrow>
             if IsButterfly element then
               bindE (at_map (kButterflyToDirection T) element) (\<lambda>d. UpdateButterfly depth T (int i) d s)
             else if IsFirefly element then
               bindE (at_map (kFireflyToDirection T) element) (\<lambda>d. UpdateFirefly depth T (int i) d s)
             else if IsOrange element then
               bindE (at_map (kOrangeToDirection T) element) (\<lambda>d. UpdateOrange depth T (int i) d s)
             else if IsMagicWall element then UpdateMagicWall T (int i) s
             else if IsExplosion element then UpdateExplosions T (int i) s
             else Inr s))"

definition apply_action :: "nat \<Rightarrow> tables \<Rightarrow> int \<Rightarrow> RNDGameState \<Rightarrow> error + RNDGameState" where
  "apply_action depth T action s =
     (if \<not> (action \<ge> 0 \<and> action < int kNumActions) then Inl AssertionFailed
      else
        (let s1 = StartScan s in
         bindE (UpdateAgent T (agent_idx (board s1)) (all_directions ! nat action) s1) (\<lambda>s2.
         bindE (foldE (update_cell depth T) [0..<nat (rows (board s2) * cols (board s2))] s2) (\<lambda>s3.
           Inr (EndScan s3)))))"

definition is_terminal :: "RNDGameState \<Rightarrow> bool" where
  "is_terminal s =
     (let out_of_time = (max_steps (board s) > 0 \<and> steps_remaining (local_state s) \<le> 0)
      in out_of_time \<or> agent_pos (board s) < 0)"

definition is_solution :: "RNDGameState \<Rightarrow> bool" where
  "is_solution s =
     (let out_of_time = (max_steps (board s) > 0 \<and> steps_remaining (local_state s) \<le> 0)
      in \<not> out_of_time \<and> agent_pos (board s) = kAgentPosExit)"

definition legal_actions :: "int list" where
  "legal_actions = [0, 1, 2, 3, 4]"

definition get_hash :: "RNDGameState \<Rightarrow> 64 word" where
  "get_hash s = zorb_hash (board s)"


subsection \<open>Construction and reset\<close>

text \<open>
  Modelled from the spec: \<open>util::parse_board_str\<close> (in \<open>util.h\<close>) is not among the
  sources. The board text is the list of its pipe-separated integers: rows, cols,
  max\_steps, gems\_required, then one cell code per cell in row-major order. A wrong cell
  count or an unknown cell code is a parse error; \<open>agent_idx = agent_pos\<close> is the index of
  the agent's cell, or \<open>-1\<close> when there is none. A fresh board has hash 0 and no cell
  marked as updated.
\<close>

definition index_of :: "Element \<Rightarrow> Element list \<Rightarrow> int" where
  "index_of e xs =
     (case find (\<lambda>i. xs ! i = e) [0..<length xs] of None \<Rightarrow> -1 | Some i \<Rightarrow> int i)"

definition parse_board_str :: "tables \<Rightarrow> int list \<Rightarrow> error + Board" where
  "parse_board_str T tokens =
     (case tokens of
        r # c # m # g # codes \<Rightarrow>
          (case those (map (kCellTypeToElement T) codes) of
             None \<Rightarrow> Inl ParseError
           | Some cells \<Rightarrow>
               if int (length cells) = r * c then
                 Inr \<lparr>rows = r, cols = c, gems_required = g, max_steps = m, grid = cells,
                      has_updated = replicate (length cells) False,
                      agent_pos = index_of kElAgent cells, agent_idx = index_of kElAgent cells,
                      zorb_hash = 0\<rparr>
               else Inl ParseError)
      | _ \<Rightarrow> Inl ParseError)"

definition hash_cells :: "tables \<Rightarrow> SharedStateInfo \<Rightarrow> Board \<Rightarrow> 64 word \<Rightarrow> error + 64 word" where
  "hash_cells T sh b h0 =
     foldE (\<lambda>i h.
         bindE (item b (int i)) (\<lambda>cell.
         bindE (at_map (zrbht sh) (zkey T b cell (int i))) (\<lambda>z. Inr (h XOR z))))
       [0..<nat (cols b * rows b)] h0"

definition fill_zrbht :: "tables \<Rightarrow> SharedStateInfo \<Rightarrow> Board \<Rightarrow> (int \<rightharpoonup> 64 word)" where
  "fill_zrbht T sh b =
     fst (fold (\<lambda>channel.
            fold (\<lambda>i (m, k).
                (m(int channel * cols b * rows b + int i \<mapsto> mt19937_stream T (rng_seed sh) k), Suc k))
              [0..<nat (cols b * rows b)])
          [0..<nat (kNumHiddenCellType T)] (zrbht sh, 0))"

definition vec_set :: "'a list \<Rightarrow> int \<Rightarrow> 'a \<Rightarrow> error + 'a list" where
  "vec_set xs i v = (if 0 \<le> i \<and> nat i < length xs then Inr (xs[nat i := v]) else Inl OutOfRange)"

definition build_in_bounds :: "Board \<Rightarrow> error + bool list" where
  "build_in_bounds b =
     (if (cols b + 2) * (rows b + 2) < 0 then Inl OutOfRange
      else
        bindE (foldE (\<lambda>i v.
                  bindE (vec_set v (int i) False) (\<lambda>v1.
                    vec_set v1 ((rows b + 1) * (cols b + 2) + int i) False))
                [0..<nat (cols b + 2)] (replicate (nat ((cols b + 2) * (rows b + 2))) True))
          (foldE (\<lambda>i v.
               bindE (vec_set v (int i * (cols b + 2)) False) (\<lambda>v1.
                 vec_set v1 (int i * (cols b + 2) + cols b + 1) False))
             [0..<nat (rows b + 2)]))"

definition build_board_to_inbounds :: "Board \<Rightarrow> int list" where
  "build_board_to_inbounds b =
     concat (map (\<lambda>r. map (\<lambda>c. (cols b + 2) * (int r + 1) + int c + 1) [0..<nat (cols b)])
               [0..<nat (rows b)])"

definition reset :: "tables \<Rightarrow> RNDGameState \<Rightarrow> error + RNDGameState" where
  "reset T s =
     (let sh = shared_state s in
      bindE (parse_board_str T (game_board_str sh)) (\<lambda>b.
      let l = LocalState_new\<lparr>random_state := splitmix64 (word_of_int (rng_seed sh)),
                              steps_remaining := max_steps b\<rparr>;
          sh1 = sh\<lparr>blob_chance := word_of_int ((cols b * rows b) * uint (blob_max_size sh))\<rparr>;
          s1 = fold (\<lambda>i. AddIndexID (int i)) [0..<nat (cols b * rows b)]
                 \<lparr>shared_state = sh1, board = b, local_state = l\<rparr>;
          sh2 = sh1\<lparr>zrbht := fill_zrbht T sh1 b\<rparr> in
      bindE (hash_cells T sh2 b (zorb_hash b)) (\<lambda>h.
      bindE (build_in_bounds b) (\<lambda>frame.
        Inr (s1\<lparr>shared_state := sh2\<lparr>in_bounds_board := frame,
                                      board_to_inbounds := build_board_to_inbounds b\<rparr>,
                board := b\<lparr>zorb_hash := h\<rparr>\<rparr>)))))"

definition RNDGameState_new :: "tables \<Rightarrow> GameParameters \<Rightarrow> error + RNDGameState" where
  "RNDGameState_new T ps =
     bindE (parse_board_str T (p_game_board_str ps)) (\<lambda>b.
       reset T \<lparr>shared_state = SharedStateInfo_new ps, board = b, local_state = LocalState_new\<rparr>)"

definition kDefaultGameParams :: GameParameters where
  "kDefaultGameParams =
     \<lparr>p_obs_show_ids = False,
      p_magic_wall_steps = 140,
      p_blob_chance = 20,
      p_blob_max_percentage = 16 / 100,
      p_rng_seed = 0,
      p_game_board_str = [2, 2, -1, 0, 0, 1, 1, 8],
      p_gravity = True,
      p_blob_swap = -1\<rparr>"


subsection \<open>One instance of the static tables\<close>

text \<open>
  Modelled from the spec: one concrete instance of the tables of \<open>definitions.h\<close>, on
  which the model can be run. Cell codes follow the catalogue order, with the codes the
  sources use (agent 0, empty 1, dirt 2, stone 3, closed exit 7, open exit 8); the reward
  bits follow the order of section 6; the visible type of an element is its cell code and
  the random stream is a fixed stand-in. The general
  theorems below hold for every instance of the tables.
\<close>

definition catalogue :: "Element list" where
  "catalogue =
     [kElAgent, kElEmpty, kElDirt, kElStone, kElStoneFalling, kElDiamond, kElDiamondFalling,
      kElExitClosed, kElExitOpen, kElAgentInExit,
      kElFirefly kUp, kElFirefly kLeft, kElFirefly kDown, kElFirefly kRight,
      kElButterfly kUp, kElButterfly kLeft, kElButterfly kDown, kElButterfly kRight,
      kElWall, kElWallMagicDormant, kElWallMagicOn, kElWallMagicExpired, kElBlob,
      kElExplosionEmpty, kElExplosion Short, kElExplosion Long, kElExplosion Deep,
      kElGateClosed Red, kElGateOpen Red, kElKey Red,
      kElGateClosed Blue, kElGateOpen Blue, kElKey Blue,
      kElGateClosed Green, kElGateOpen Green, kElKey Green,
      kElGateClosed Yellow, kElGateOpen Yellow, kElKey Yellow,
      kElNut, kElNutFalling, kElBomb, kElBombFalling,
      kElOrange kUp, kElOrange kLeft, kElOrange kDown, kElOrange kRight]"

fun position :: "'a \<Rightarrow> 'a list \<Rightarrow> int" where
  "position x [] = -1"
| "position x (y # ys) = (if x = y then 0 else (let p = position x ys in if p < 0 then -1 else p + 1))"

definition std_properties :: "Element \<Rightarrow> ElementProperties \<Rightarrow> bool" where
  "std_properties e p =
     (case p of
        kRounded \<Rightarrow> e \<in> set [kElStone, kElDiamond, kElNut, kElBomb]
      | kCanExplode \<Rightarrow> e = kElAgent \<or> IsFirefly e \<or> IsButterfly e \<or> IsOrange e \<or>
                         e = kElBomb \<or> e = kElBombFalling
      | kConsumable \<Rightarrow> e \<in> set [kElAgent, kElEmpty, kElDirt, kElStone, kElStoneFalling,
                               kElDiamond, kElDiamondFalling, kElBlob, kElNut, kElNutFalling,
                               kElBomb, kElBombFalling] \<or>
                         IsFirefly e \<or> IsButterfly e \<or> IsOrange e \<or> IsKey e
      | kTraversable \<Rightarrow> e \<in> set [kElEmpty, kElDirt, kElDiamond, kElDiamondFalling] \<or> IsKey e
      | kPushable \<Rightarrow> e \<in> set [kElStone, kElNut, kElBomb])"

definition std_rotate_left :: "Directions \<Rightarrow> Directions" where
  "std_rotate_left d =
     (case d of kUp \<Rightarrow> kLeft | kLeft \<Rightarrow> kDown | kDown \<Rightarrow> kRight | kRight \<Rightarrow> kUp | _ \<Rightarrow> kNoop)"

definition std_rotate_right :: "Directions \<Rightarrow> Directions" where
  "std_rotate_right d =
     (case d of kUp \<Rightarrow> kRight | kRight \<Rightarrow> kDown | kDown \<Rightarrow> kLeft | kLeft \<Rightarrow> kUp | _ \<Rightarrow> kNoop)"

definition orthogonal :: "Directions \<Rightarrow> bool" where
  "orthogonal d = (d = kUp \<or> d = kRight \<or> d = kDown \<or> d = kLeft)"

definition color_bit :: "Color \<Rightarrow> nat" where
  "color_bit c = (case c of Red \<Rightarrow> 0 | Blue \<Rightarrow> 1 | Green \<Rightarrow> 2 | Yellow \<Rightarrow> 3)"

definition kTables :: tables where
  "kTables =
     \<lparr>HasProp = std_properties,
      kElementToExplosion =
        (\<lambda>e. if IsButterfly e then Some (kElExplosion Short)
              else if e = kElBomb \<or> e = kElBombFalling then Some (kElExplosion Long)
              else if e = kElAgent \<or> IsFirefly e \<or> IsOrange e then Some kElExplosionEmpty
              else None),
      kExplosionToElement =
        (\<lambda>e. if e = kElExplosion Short then Some kElDiamond
              else if IsExplosion e then Some kElEmpty else None),
      kMagicWallConversion =
        [kElStoneFalling \<mapsto> kElDiamond, kElDiamondFalling \<mapsto> kElStone],
      kElToFalling =
        [kElStone \<mapsto> kElStoneFalling, kElDiamond \<mapsto> kElDiamondFalling,
         kElNut \<mapsto> kElNutFalling, kElBomb \<mapsto> kElBombFalling],
      kKeyToGate = (\<lambda>e. case e of kElKey c \<Rightarrow> Some (kElGateClosed c) | _ \<Rightarrow> None),
      kGateOpenMap = (\<lambda>e. case e of kElGateClosed c \<Rightarrow> Some (kElGateOpen c) | _ \<Rightarrow> None),
      kKeyToSignal = (\<lambda>e. case e of kElKey c \<Rightarrow> Some (push_bit (1 + color_bit c) 1) | _ \<Rightarrow> None),
      kGateToSignal = (\<lambda>e. case e of kElGateOpen c \<Rightarrow> Some (push_bit (6 + color_bit c) 1) | _ \<Rightarrow> None),
      kPointMap = [kElDiamond \<mapsto> 10, kElDiamondFalling \<mapsto> 10],
      kRotateLeft = std_rotate_left,
      kRotateRight = std_rotate_right,
      kDirectionToFirefly = (\<lambda>d. if orthogonal d then kElFirefly d else kNullElement),
      kDirectionToButterfly = (\<lambda>d. if orthogonal d then kElButterfly d else kNullElement),
      kDirectionToOrange = (\<lambda>d. if orthogonal d then kElOrange d else kNullElement),
      kFireflyToDirection = (\<lambda>e. case e of kElFirefly d \<Rightarrow> Some d | _ \<Rightarrow> None),
      kButterflyToDirection = (\<lambda>e. case e of kElButterfly d \<Rightarrow> Some d | _ \<Rightarrow> None),
      kOrangeToDirection = (\<lambda>e. case e of kElOrange d \<Rightarrow> Some d | _ \<Rightarrow> None),
      ElementToItem = (\<lambda>e. position e catalogue),
      kCellTypeToElement =
        (\<lambda>code. if 0 \<le> code \<and> nat code < length catalogue then Some (catalogue ! nat code) else None),
      kNumHiddenCellType = int (length catalogue),
      visible_type = (\<lambda>e. position e catalogue),
      kNumVisibleCellType = int (length catalogue),
      kRewardCollectDiamond = 1,
      kRewardCollectKey = 32,
      kRewardWalkThroughGate = 1024,
      kRewardWalkThroughExit = 2048,
      mt19937_stream = (\<lambda>seed k. word_of_int seed * 0x9E3779B97f4A7C15 + word_of_nat k * 0xBF58476D1CE4E5B9 + 1)\<rparr>"

section \<open>The searcher (search.cpp)\<close>

text \<open>
  A \<open>double\<close> is idealised as a real number and \<open>std::log\<close> as the natural logarithm; no
  statement about the search below depends on the value of a cost. The model evaluator is
  an oracle from a batch of observations to a batch of predictions. Pointers to nodes are
  indices into the list of nodes handed out so far; a pointer to a stored state is the
  state itself, since a stored state is never written again.
\<close>

type_synonym Observation = "real list"

record InferenceOutput =
  logits :: "real list"
  policy :: "real list"
  log_policy :: "real list"
  heuristic :: real

definition get_observation :: "tables \<Rightarrow> RNDGameState \<Rightarrow> error + Observation" where
  "get_observation T s =
     (let channel_length = cols (board s) * rows (board s) in
      foldE (\<lambda>i obs.
          vec_set obs (visible_type T (GetItem s (int i) kNoop) * channel_length + int i) 1)
        [0..<nat channel_length]
        (replicate (nat (kNumVisibleCellType T * channel_length)) 0))"

definition BUDGET_NODES :: int where
  "BUDGET_NODES = 2000"

record Node =
  n_parent :: "nat option"
  n_state :: RNDGameState
  n_p :: real
  n_g :: real
  n_levin_cost :: real
  n_action :: int
  n_h :: real
  n_action_log_policy :: "real list"

text \<open>\<open>NodeBuffer::get_node\<close> followed by \<open>Node::set_values\<close>.\<close>

definition Node_new :: "nat option \<Rightarrow> RNDGameState \<Rightarrow> real \<Rightarrow> real \<Rightarrow> int \<Rightarrow> Node" where
  "Node_new parent' state' p' g' action' =
     \<lparr>n_parent = parent', n_state = state', n_p = p', n_g = g', n_levin_cost = 0,
      n_action = action', n_h = 0, n_action_log_policy = []\<rparr>"

definition NodeCompareOrdered :: "Node \<Rightarrow> Node \<Rightarrow> bool" where
  "NodeCompareOrdered left right =
     (n_levin_cost left > n_levin_cost right \<or>
      (n_levin_cost left = n_levin_cost right \<and> n_g left > n_g right))"

definition log_policy_noise :: "real list \<Rightarrow> real \<Rightarrow> real list" where
  "log_policy_noise pol epsilon =
     (let noise = 1 / real (length pol)
      in map (\<lambda>pr. ln (((1 - epsilon) * pr) + (epsilon * noise) + 1 / 10 ^ 8)) pol)"

definition phs_cost :: "Node \<Rightarrow> real \<Rightarrow> real" where
  "phs_cost node predicted_h =
     (let ph = (if predicted_h < 0 then 0 else predicted_h)
      in ln (ph + n_g node + 1 / 10 ^ 8) - (n_p node * (1 + (ph / n_g node))))"

text \<open>
  A lookup in an \<open>unordered_set\<close> keyed by the state's hash with \<open>operator==\<close> as
  equality finds an element with the same hash that compares equal. \<open>Board::operator==\<close>
  is the parameter \<open>board_eq\<close>.
\<close>

definition state_equal :: "(Board \<Rightarrow> Board \<Rightarrow> bool) \<Rightarrow> RNDGameState \<Rightarrow> RNDGameState \<Rightarrow> bool" where
  "state_equal board_eq a b = (get_hash a = get_hash b \<and> RNDGameState_eq board_eq a b)"

definition has_state :: "(Board \<Rightarrow> Board \<Rightarrow> bool) \<Rightarrow> RNDGameState list \<Rightarrow> RNDGameState \<Rightarrow> bool" where
  "has_state board_eq states s = list_ex (\<lambda>t. state_equal board_eq t s) states"

definition add_state ::
  "(Board \<Rightarrow> Board \<Rightarrow> bool) \<Rightarrow> RNDGameState \<Rightarrow> RNDGameState list \<Rightarrow> RNDGameState list" where
  "add_state board_eq s states = (if has_state board_eq states s then states else states @ [s])"

definition get_state ::
  "(Board \<Rightarrow> Board \<Rightarrow> bool) \<Rightarrow> RNDGameState list \<Rightarrow> RNDGameState \<Rightarrow> RNDGameState option" where
  "get_state board_eq states s = find (\<lambda>t. state_equal board_eq t s) states"

record SearchEnv =
  env_tables :: tables
  env_depth :: nat
  env_board_eq :: "Board \<Rightarrow> Board \<Rightarrow> bool"
  env_Inference :: "Observation list \<Rightarrow> InferenceOutput list"

record SearchState =
  node_buffer :: "Node list"
  state_buffer :: "RNDGameState list"
  open_queue :: "nat list"
  closed_set :: "nat list"
  children_to_predict :: "nat list"
  child_inference_inputs :: "Observation list"

text \<open>
  \<open>std::priority_queue\<close> with \<open>NodeCompareOrdered\<close>: the top is a node that the
  comparison puts below no other. Among several such nodes the model takes the one pushed
  first.
\<close>

fun pq_best :: "Node list \<Rightarrow> nat \<Rightarrow> nat list \<Rightarrow> nat" where
  "pq_best nodes best [] = best"
| "pq_best nodes best (x # xs) =
     pq_best nodes (if NodeCompareOrdered (nodes ! best) (nodes ! x) then x else best) xs"

definition pq_top :: "SearchState \<Rightarrow> nat" where
  "pq_top st = pq_best (node_buffer st) (hd (open_queue st)) (tl (open_queue st))"

definition closed_find :: "(Board \<Rightarrow> Board \<Rightarrow> bool) \<Rightarrow> Node list \<Rightarrow> nat list \<Rightarrow> nat \<Rightarrow> bool" where
  "closed_find board_eq nodes closed_nodes node =
     list_ex (\<lambda>c. state_equal board_eq (n_state (nodes ! c)) (n_state (nodes ! node))) closed_nodes"

definition closed_insert :: "(Board \<Rightarrow> Board \<Rightarrow> bool) \<Rightarrow> Node list \<Rightarrow> nat \<Rightarrow> nat list \<Rightarrow> nat list" where
  "closed_insert board_eq nodes node closed_nodes =
     (if closed_find board_eq nodes closed_nodes node then closed_nodes else closed_nodes @ [node])"

definition consider_child :: "SearchEnv \<Rightarrow> nat \<Rightarrow> nat \<Rightarrow> SearchState \<Rightarrow> error + SearchState" where
  "consider_child env node i st =
     (let parent = node_buffer st ! node in
      bindE (apply_action (env_depth env) (env_tables env) (legal_actions ! i) (n_state parent))
        (\<lambda>child_state.
      if is_terminal child_state then Inr st
      else
        (let states = add_state (env_board_eq env) child_state (state_buffer st) in
         case get_state (env_board_eq env) states child_state of
           None \<Rightarrow> Inl NullDereference
         | Some stored \<Rightarrow>
             if \<not> i < length (n_action_log_policy parent) then Inl OutOfRange
             else
               (let child = Node_new (Some node) stored
                              (n_p parent + n_action_log_policy parent ! i) (n_g parent + 1)
                              (legal_actions ! i);
                    child_node = length (node_buffer st) in
                bindE (get_observation (env_tables env) stored) (\<lambda>obs.
                  Inr (st\<lparr>node_buffer := node_buffer st @ [child],
                          state_buffer := states,
                          children_to_predict := children_to_predict st @ [child_node],
                          child_inference_inputs := child_inference_inputs st @ [obs]\<rparr>))))))"

definition push_predicted ::
  "(Board \<Rightarrow> Board \<Rightarrow> bool) \<Rightarrow> nat \<times> InferenceOutput \<Rightarrow> SearchState \<Rightarrow> SearchState" where
  "push_predicted board_eq cp st =
     (let child_node = fst cp; pred = snd cp; nodes = node_buffer st in
      if \<not> closed_find board_eq nodes (closed_set st) child_node then
        (let n1 = (nodes ! child_node)\<lparr>n_action_log_policy := log_policy_noise (policy pred) 0\<rparr>;
             n2 = n1\<lparr>n_levin_cost := phs_cost n1 (heuristic pred)\<rparr>;
             n3 = n2\<lparr>n_h := heuristic pred\<rparr>
         in st\<lparr>node_buffer := nodes[child_node := n3],
               open_queue := open_queue st @ [child_node]\<rparr>)
      else st)"

definition evaluate_batch :: "SearchEnv \<Rightarrow> SearchState \<Rightarrow> error + SearchState" where
  "evaluate_batch env st =
     (let predictions = env_Inference env (child_inference_inputs st) in
      if length predictions > length (children_to_predict st) then Inl OutOfRange
      else
        Inr ((fold (push_predicted (env_board_eq env)) (zip (children_to_predict st) predictions) st)
               \<lparr>children_to_predict := [], child_inference_inputs := []\<rparr>))"

text \<open>
  One round of the main loop, entered with a non-empty open list: the result is \<open>Inl\<close>
  of the value \<open>search\<close> returns, or \<open>Inr\<close> of the state the next round starts from.
\<close>

definition search_iteration :: "SearchEnv \<Rightarrow> int \<Rightarrow> SearchState \<Rightarrow> error + (bool + SearchState)" where
  "search_iteration env expanded st =
     (let node = pq_top st;
          st1 = st\<lparr>open_queue := remove1 node (open_queue st),
                   closed_set := closed_insert (env_board_eq env) (node_buffer st) node (closed_set st)\<rparr>;
          expanded1 = expanded + 1 in
      if is_solution (n_state (node_buffer st1 ! node)) then Inr (Inl True)
      else if expanded1 \<ge> BUDGET_NODES then Inr (Inl False)
      else if length legal_actions \<noteq> length (n_action_log_policy (node_buffer st1 ! node))
        then Inl AssertionFailed
      else
        bindE (foldE (consider_child env node) [0..<length legal_actions] st1) (\<lambda>st2.
          if int (length (children_to_predict st2)) \<ge> 32 \<or> open_queue st2 = [] then
            bindE (evaluate_batch env st2) (\<lambda>st3. Inr (Inr st3))
          else Inr (Inr st2)))"

function search_loop :: "SearchEnv \<Rightarrow> int \<Rightarrow> SearchState \<Rightarrow> error + bool" where
  "search_loop env expanded st =
     (if open_queue st = [] then Inr False
      else
        (case search_iteration env expanded st of
           Inl e \<Rightarrow> Inl e
         | Inr (Inl found) \<Rightarrow> Inr found
         | Inr (Inr st') \<Rightarrow> search_loop env (expanded + 1) st'))"
  by pat_completeness auto
termination
  by (relation "measure (\<lambda>(env, expanded, st). nat (BUDGET_NODES - expanded))")
     (auto simp: search_iteration_def Let_def bindE_def split: if_splits sum.splits)

definition search_start :: "SearchEnv \<Rightarrow> RNDGameState \<Rightarrow> error + SearchState" where
  "search_start env input_state =
     bindE (get_observation (env_tables env) input_state) (\<lambda>obs.
     case env_Inference env [obs] of
       [] \<Rightarrow> Inl OutOfRange
     | pred # others \<Rightarrow>
         (let root_node = (Node_new None input_state 0 0 (-1))
                            \<lparr>n_action_log_policy := log_policy_noise (policy pred) 0\<rparr>
          in Inr \<lparr>node_buffer = [root_node],
                  state_buffer = add_state (env_board_eq env) input_state [],
                  open_queue = [0], closed_set = [],
                  children_to_predict = [], child_inference_inputs = []\<rparr>))"

definition search :: "SearchEnv \<Rightarrow> RNDGameState \<Rightarrow> error + bool" where
  "search env input_state = bindE (search_start env input_state) (search_loop env 0)"

text \<open>The states of the main loop that a search passes through, round by round.\<close>

inductive search_reaches :: "SearchEnv \<Rightarrow> RNDGameState \<Rightarrow> int \<Rightarrow> SearchState \<Rightarrow> bool"
  for env :: SearchEnv and input_state :: RNDGameState where
  started: "search_start env input_state = Inr st \<Longrightarrow> search_reaches env input_state 0 st"
| iterated: "search_reaches env input_state expanded st \<Longrightarrow> open_queue st \<noteq> [] \<Longrightarrow>
             search_iteration env expanded st = Inr (Inr st') \<Longrightarrow>
             search_reaches env input_state (expanded + 1) st'"

subsection \<open>Concrete inputs\<close>

definition board_2x2 :: Board where
  "board_2x2 =
     \<lparr>rows = 2, cols = 2, gems_required = 0, max_steps = -1,
      grid = [kElAgent, kElEmpty, kElEmpty, kElExitOpen],
      has_updated = [False, False, False, False],
      agent_pos = 0, agent_idx = 0, zorb_hash = 0\<rparr>"

definition state_2x2 :: RNDGameState where
  "state_2x2 =
     \<lparr>shared_state = SharedStateInfo_new kDefaultGameParams, board = board_2x2,
      local_state = LocalState_new\<rparr>"

definition state_2x2_later :: RNDGameState where
  "state_2x2_later =
     state_2x2\<lparr>local_state := LocalState_new\<lparr>steps_remaining := 7, random_state := 99,
                   reward_signal := 1, id_state := 3, index_id_map := [1 \<mapsto> 3],
                   id_index_map := [3 \<mapsto> 1]\<rparr>\<rparr>"

definition state_2x2_blob :: RNDGameState where
  "state_2x2_blob = state_2x2\<lparr>local_state := LocalState_new\<lparr>blob_size := 1\<rparr>\<rparr>"

section \<open>Invariants of a scan\<close>

text \<open>
  A property of states is stable under a scan when the two operations that write the grid,
  \<open>SetItem\<close> and \<open>MoveItem\<close>, keep it, and it does not depend on the local state or on
  the recorded agent position.
\<close>

definition scan_stable :: "tables \<Rightarrow> (RNDGameState \<Rightarrow> bool) \<Rightarrow> bool" where
  "scan_stable T I =
     ((\<forall>index element action s s'. I s \<and> SetItem T index element action s = Inr s' \<longrightarrow> I s') \<and>
      (\<forall>index action s s'. I s \<and> MoveItem T index action s = Inr s' \<longrightarrow> I s') \<and>
      (\<forall>s l. I s \<longrightarrow> I (s\<lparr>local_state := l\<rparr>)) \<and>
      (\<forall>s p. I s \<longrightarrow> I (set_agent_pos p s)) \<and>
      (\<forall>s p. I s \<longrightarrow> I (set_agent_idx p s)))"

definition keeps :: "('s \<Rightarrow> bool) \<Rightarrow> error + 's \<Rightarrow> bool" where
  "keeps I r = (case r of Inl e \<Rightarrow> True | Inr s \<Rightarrow> I s)"

subsection \<open>The Zobrist invariant\<close>

primrec xor_list :: "64 word list \<Rightarrow> 64 word" where
  "xor_list [] = 0"
| "xor_list (z # zs) = z XOR xor_list zs"

definition cell_entries :: "tables \<Rightarrow> SharedStateInfo \<Rightarrow> Board \<Rightarrow> 64 word option list" where
  "cell_entries T sh b =
     map (\<lambda>i. zrbht sh (zkey T b (grid b ! i) (int i))) [0..<length (grid b)]"

definition zobrist_consistent :: "tables \<Rightarrow> RNDGameState \<Rightarrow> bool" where
  "zobrist_consistent T s =
     (int (length (grid (board s))) = cols (board s) * rows (board s) \<and>
      (\<exists>zs. cell_entries T (shared_state s) (board s) = map Some zs \<and>
            zorb_hash (board s) = xor_list zs))"

text \<open>
  The states of a game: the one the constructor builds, and those that \<open>apply_action\<close>
  (with an action that passes its assertion, and any bound on the explosion depth) and
  \<open>reset\<close> lead to.
\<close>

inductive reachable :: "tables \<Rightarrow> GameParameters \<Rightarrow> RNDGameState \<Rightarrow> bool"
  for T :: tables and ps :: GameParameters where
  constructed: "RNDGameState_new T ps = Inr s \<Longrightarrow> reachable T ps s"
| stepped: "reachable T ps s \<Longrightarrow> apply_action depth T action s = Inr s' \<Longrightarrow> reachable T ps s'"
| reset_again: "reachable T ps s \<Longrightarrow> reset T s = Inr s' \<Longrightarrow> reachable T ps s'"

subsection \<open>Marked cells\<close>

definition marks_changes :: "Element list \<Rightarrow> RNDGameState \<Rightarrow> bool" where
  "marks_changes g0 s =
     (length (grid (board s)) = length g0 \<and>
      (\<forall>i < length g0. grid (board s) ! i \<noteq> g0 ! i \<longrightarrow>
          (i < length (has_updated (board s)) \<and> has_updated (board s) ! i) \<or>
          grid (board s) ! i = kElEmpty))"

subsection \<open>A falling stone above a magic wall\<close>

text \<open>
  The default parameters with the board \<open>3|2|-1|0|4|0|19|18|1|18\<close>: a falling stone
  above a dormant magic wall with an empty cell under the wall, the agent beside the stone.
\<close>

definition magic_column :: GameParameters where
  "magic_column = kDefaultGameParams\<lparr>p_game_board_str := [3, 2, -1, 0, 4, 0, 19, 18, 1, 18]\<rparr>"

text \<open>What a step shows of a state: the grid, the marks, the agent and the magic flag.\<close>

definition observe :: "error + RNDGameState \<Rightarrow> error + (Element list \<times> bool list \<times> int \<times> bool)" where
  "observe r =
     bindE r (\<lambda>s. Inr (grid (board s), has_updated (board s), agent_pos (board s),
                       magic_active (local_state s)))"







section \<open>Basic facts about the error monad\<close>

lemma bindE_simps [simp]:
  "bindE (Inl e) f = Inl e"
  "bindE (Inr x) f = f x"
  by (simp_all add: bindE_def)

lemma bindE_eq_Inr: "bindE m f = Inr y \<longleftrightarrow> (\<exists>x. m = Inr x \<and> f x = Inr y)"
  by (cases m) simp_all

section \<open>The Zobrist table in closed form\<close>

lemma fill_inner:
  "fold (\<lambda>i (m, k). (m(c + int i \<mapsto> S k), Suc k)) [0..<n] (m0, k0) =
     (\<lambda>key. if c \<le> key \<and> key < c + int n then Some (S (k0 + nat (key - c))) else m0 key, k0 + n)"
proof (induction n)
  case 0
  then show ?case by (auto simp: fun_eq_iff)
next
  case (Suc n)
  show ?case
    unfolding upt_Suc_append [OF le0] fold_append comp_def Suc
    by (auto simp: fun_eq_iff nat_add_distrib)
qed

lemma fill_outer_step:
  "(\<lambda>key. if int K * int n \<le> key \<and> key < int K * int n + int n
            then Some (S (K * n + nat (key - int K * int n)))
            else if 0 \<le> key \<and> key < int K * int n then Some (S (nat key)) else m0 key) =
   (\<lambda>key. if 0 \<le> key \<and> key < int (Suc K) * int n then Some (S (nat key)) else m0 key)"
proof
  fix key :: int
  have a: "K * n + nat (key - int K * int n) = nat key" if "int K * int n \<le> key"
  proof -
    have "int (K * n + nat (key - int K * int n)) = key" using that by simp
    then show ?thesis by (metis nat_int)
  qed
  have b: "0 \<le> int K * int n" by simp
  show "(if int K * int n \<le> key \<and> key < int K * int n + int n
            then Some (S (K * n + nat (key - int K * int n)))
            else if 0 \<le> key \<and> key < int K * int n then Some (S (nat key)) else m0 key) =
        (if 0 \<le> key \<and> key < int (Suc K) * int n then Some (S (nat key)) else m0 key)"
    using a b by (auto simp: algebra_simps)
qed

lemma fill_outer:
  "fold (\<lambda>channel. fold (\<lambda>i (m, k). (m(int channel * int n + int i \<mapsto> S k), Suc k)) [0..<n])
      [0..<K] (m0, 0) =
     (\<lambda>key. if 0 \<le> key \<and> key < int K * int n then Some (S (nat key)) else m0 key, K * n)"
proof (induction K)
  case 0
  then show ?case by (auto simp: fun_eq_iff)
next
  case (Suc K)
  show ?case
    unfolding upt_Suc_append [OF le0] fold_append comp_def Suc
    by (simp add: fill_inner fill_outer_step)
qed

text \<open>
  The Zobrist table after \<open>reset\<close>, in closed form: the key \<open>channel * N + i\<close> holds the
  draw number \<open>channel * N + i\<close> of the generator.
\<close>

lemma fold_const_id: "fold (\<lambda>x. id) xs = id"
  by (induction xs) simp_all

lemma fill_zrbht_closed [code]:
  "fill_zrbht T sh b =
     (\<lambda>key. if 0 \<le> key \<and> key < int (nat (kNumHiddenCellType T)) * int (nat (cols b * rows b))
            then Some (mt19937_stream T (rng_seed sh) (nat key)) else zrbht sh key)"
proof (cases "0 \<le> cols b * rows b")
  case True
  define n where "n = nat (cols b * rows b)"
  have key: "int channel * cols b * rows b + int i = int channel * int n + int i" for channel i
    using True by (simp add: n_def mult.assoc)
  have "fill_zrbht T sh b =
        fst (fold (\<lambda>channel.
               fold (\<lambda>i (m, k). (m(int channel * int n + int i \<mapsto> mt19937_stream T (rng_seed sh) k), Suc k))
                 [0..<n])
             [0..<nat (kNumHiddenCellType T)] (zrbht sh, 0))"
    unfolding fill_zrbht_def key n_def [symmetric] ..
  also have "\<dots> = (\<lambda>key. if 0 \<le> key \<and> key < int (nat (kNumHiddenCellType T)) * int n
            then Some (mt19937_stream T (rng_seed sh) (nat key)) else zrbht sh key)"
    unfolding fill_outer by simp
  finally show ?thesis unfolding n_def .
next
  case False
  then have n: "nat (cols b * rows b) = 0" by simp
  show ?thesis
    unfolding fill_zrbht_def n by (auto simp: fold_const_id fun_eq_iff)
qed

section \<open>The queue after shutdown\<close>

text \<open>
  Claim C7. After \<open>BlockNewValues\<close> a \<open>Push\<close> should be refused and a \<open>Pop\<close> of an empty
  queue should return none. The \<open>Pop\<close> half holds. \<open>Push\<close> never reads the flag: on a
  queue with room it enqueues the value and returns true, and no \<open>Push\<close> returns false.
\<close>

theorem ThreadedQueue_Push_after_BlockNewValues:
  "ThreadedQueue_Push (7::nat) (ThreadedQueue_BlockNewValues (ThreadedQueue_new 4)) =
     (Returns True, \<lparr>block_new_values = True, max_size = 4, q = [7]\<rparr>) \<and>
   (\<forall>(v::nat) Q. fst (ThreadedQueue_Push v (ThreadedQueue_BlockNewValues Q)) \<noteq> Returns False) \<and>
   (\<forall>Q :: nat ThreadedQueue.
        ThreadedQueue_Pop (ThreadedQueue_BlockNewValues (Q\<lparr>q := []\<rparr>)) =
          (Returns None, ThreadedQueue_BlockNewValues (Q\<lparr>q := []\<rparr>)))"
  by (simp add: ThreadedQueue_Push_def ThreadedQueue_BlockNewValues_def ThreadedQueue_new_def
      ThreadedQueue_Pop_def)

section \<open>State equality\<close>

text \<open>
  Claim C2, as amended. \<open>RNDGameState::operator==\<close> holds exactly when the boards compare
  equal under \<open>Board::operator==\<close> and the five fields \<open>magic_wall_steps\<close>, \<open>blob_size\<close>,
  \<open>gems_collected\<close>, \<open>magic_active\<close> and \<open>blob_enclosed\<close> of the local states agree; no
  other field of \<open>LocalState\<close> is compared.
\<close>

theorem RNDGameState_eq_five_fields:
  "RNDGameState_eq board_eq s other =
     (magic_wall_steps (local_state s) = magic_wall_steps (local_state other) \<and>
      blob_size (local_state s) = blob_size (local_state other) \<and>
      gems_collected (local_state s) = gems_collected (local_state other) \<and>
      magic_active (local_state s) = magic_active (local_state other) \<and>
      blob_enclosed (local_state s) = blob_enclosed (local_state other) \<and>
      board_eq (board s) (board other))"
  by (simp add: RNDGameState_eq_def LocalState_eq_def)

text \<open>
  Two states with the same board that differ in \<open>steps_remaining\<close>, \<open>random_state\<close>,
  \<open>reward_signal\<close>, \<open>id_state\<close> and both id maps compare equal, so equality is not
  equality of the full state.
\<close>

theorem RNDGameState_eq_not_full_state:
  "\<not> (RNDGameState_eq (=) state_2x2 state_2x2_later \<longleftrightarrow>
        (board state_2x2 = board state_2x2_later \<and>
         local_state state_2x2 = local_state state_2x2_later))"
  by (simp add: RNDGameState_eq_def LocalState_eq_def state_2x2_def state_2x2_later_def
      LocalState_new_def)

section \<open>The end of a scan\<close>

text \<open>
  Claim C4, as amended. When \<open>blob_swap\<close> is unset, \<open>EndScan\<close> sets it to \<open>kElStone\<close>
  whenever \<open>blob_size > blob_max_size\<close>, whether or not the blob is enclosed; otherwise
  to \<open>kElDiamond\<close> if the blob is enclosed; otherwise it stays unset.
\<close>

theorem EndScan_blob_swap:
  "blob_swap (local_state s) = kNullElement \<Longrightarrow>
   blob_swap (local_state (EndScan s)) =
     (if unat (blob_size (local_state s)) > unat (blob_max_size (shared_state s)) then kElStone
      else if blob_enclosed (local_state s) then kElDiamond
      else kNullElement)"
  by (simp add: EndScan_def Let_def)

theorem EndScan_blob_swap_witness:
  "blob_swap (local_state state_2x2) = kNullElement \<and>
   blob_swap (local_state (EndScan state_2x2)) = kElDiamond"
  using EndScan_blob_swap [of state_2x2]
  by (simp add: state_2x2_def LocalState_new_def SharedStateInfo_new_def)

text \<open>
  An enclosed blob of size 1 with \<open>blob_max_size = 0\<close>: both tests hold, and \<open>blob_swap\<close>
  ends as \<open>kElStone\<close>, not \<open>kElDiamond\<close>.
\<close>

theorem EndScan_enclosed_and_oversized:
  "blob_swap (local_state state_2x2_blob) = kNullElement \<and>
   blob_enclosed (local_state state_2x2_blob) \<and>
   unat (blob_size (local_state state_2x2_blob)) > unat (blob_max_size (shared_state state_2x2_blob)) \<and>
   blob_swap (local_state (EndScan state_2x2_blob)) = kElStone \<and>
   blob_swap (local_state (EndScan state_2x2_blob)) \<noteq> kElDiamond"
  by (simp add: EndScan_def state_2x2_blob_def state_2x2_def LocalState_new_def
      SharedStateInfo_new_def)

section \<open>Reset and the blob parameters\<close>

text \<open>
  Claim C1. After \<open>reset\<close> the shared configuration should have
  \<open>blob_max_size = floor (cols * rows * blob_max_percentage)\<close> and \<open>blob_chance\<close> as
  configured. On the default parameters with \<open>blob_max_percentage = 0.5\<close> the configured
  chance is 20 and the floor is 2, but \<open>reset\<close> assigns \<open>cols * rows * blob_max_size\<close> to
  \<open>blob_chance\<close>: the chance becomes 0 and \<open>blob_max_size\<close> stays 0.
\<close>

theorem reset_overwrites_blob_chance:
  "(case RNDGameState_new kTables (kDefaultGameParams\<lparr>p_blob_max_percentage := 1 / 2\<rparr>) of
      Inl e \<Rightarrow> False
    | Inr s \<Rightarrow>
        p_blob_chance (params (shared_state s)) = 20 \<and>
        blob_chance (shared_state s) = 0 \<and>
        \<lfloor>real_of_int (cols (board s) * rows (board s)) * blob_max_percentage (shared_state s)\<rfloor> = 2 \<and>
        blob_max_size (shared_state s) = 0)"
  by code_simp

section \<open>Walking into the exit\<close>

lemma apply_action_agent_error:
  assumes "0 \<le> a" "a < 5"
    and "UpdateAgent T (agent_idx (board (StartScan s))) (all_directions ! nat a) (StartScan s) = Inl e"
  shows "apply_action depth T a s = Inl e"
  using assms by (simp add: apply_action_def kNumActions_def Let_def)

text \<open>
  Claim C10. The division \<open>steps_remaining * 100 / max_steps\<close> of the exit branch should
  never divide by zero. On the board \<open>2|1|0|0|0|8\<close> (the agent above an open exit,
  \<open>max_steps = 0\<close>) the action Down reaches the division with a zero divisor, for every
  bound on the explosion depth.
\<close>

theorem UpdateAgent_exit_divides_by_zero:
  "(case RNDGameState_new kTables (kDefaultGameParams\<lparr>p_game_board_str := [2, 1, 0, 0, 0, 8]\<rparr>) of
      Inl e \<Rightarrow> False
    | Inr s \<Rightarrow> max_steps (board s) = 0 \<and> (\<forall>depth. apply_action depth kTables 3 s = Inl DivisionByZero))"
proof -
  have "(case RNDGameState_new kTables (kDefaultGameParams\<lparr>p_game_board_str := [2, 1, 0, 0, 0, 8]\<rparr>) of
      Inl e \<Rightarrow> False
    | Inr s \<Rightarrow> max_steps (board s) = 0 \<and>
        (case UpdateAgent kTables (agent_idx (board (StartScan s))) (all_directions ! nat 3) (StartScan s) of
           Inl e \<Rightarrow> e = DivisionByZero | Inr s' \<Rightarrow> False))"
    by code_simp
  then show ?thesis
    by (auto split: sum.splits intro!: apply_action_agent_error)
qed

section \<open>Stability under a scan\<close>

lemma keeps_simps [simp]: "keeps I (Inl e)" "keeps I (Inr s) = I s"
  by (simp_all add: keeps_def)

lemma keepsD: "keeps I r \<Longrightarrow> r = Inr s' \<Longrightarrow> I s'"
  by simp

lemma keeps_bind: "keeps I m \<Longrightarrow> (\<And>s1. I s1 \<Longrightarrow> keeps I (g s1)) \<Longrightarrow> keeps I (bindE m g)"
  by (cases m) simp_all

lemma keeps_at_map: "(\<And>v. keeps I (g v)) \<Longrightarrow> keeps I (bindE (at_map m k) g)"
  by (cases "at_map m k") simp_all

lemma keeps_if: "keeps I a \<Longrightarrow> keeps I b \<Longrightarrow> keeps I (if c then a else b)"
  by simp

lemma keeps_foldE:
  assumes "\<And>x s. I s \<Longrightarrow> keeps I (f x s)"
  shows "I s \<Longrightarrow> keeps I (foldE f xs s)"
proof (induction xs arbitrary: s)
  case Nil
  then show ?case by simp
next
  case (Cons x xs)
  then show ?case using assms by (auto intro!: keeps_bind)
qed

lemma stable_SetItem:
  assumes "scan_stable T I" "I s"
  shows "keeps I (SetItem T index element action s)"
proof -
  have "I s'" if "SetItem T index element action s = Inr s'" for s'
    using assms that unfolding scan_stable_def by blast
  then show ?thesis by (cases "SetItem T index element action s") simp_all
qed

lemma stable_MoveItem:
  assumes "scan_stable T I" "I s"
  shows "keeps I (MoveItem T index action s)"
proof -
  have "I s'" if "MoveItem T index action s = Inr s'" for s'
    using assms that unfolding scan_stable_def by blast
  then show ?thesis by (cases "MoveItem T index action s") simp_all
qed

lemma stable_local: "scan_stable T I \<Longrightarrow> I s \<Longrightarrow> I (s\<lparr>local_state := l\<rparr>)"
  unfolding scan_stable_def by blast

lemma stable_set_local: "scan_stable T I \<Longrightarrow> I s \<Longrightarrow> I (set_local f s)"
  unfolding set_local_def by (rule stable_local)

lemma stable_agent_pos: "scan_stable T I \<Longrightarrow> I s \<Longrightarrow> I (set_agent_pos p s)"
  unfolding scan_stable_def by blast

lemma stable_agent_idx: "scan_stable T I \<Longrightarrow> I s \<Longrightarrow> I (set_agent_idx p s)"
  unfolding scan_stable_def by blast

lemma stable_UpdateIDIndex: "scan_stable T I \<Longrightarrow> I s \<Longrightarrow> I (UpdateIDIndex a b s)"
  by (auto simp: UpdateIDIndex_def Let_def split: option.splits intro: stable_local)

lemma stable_UpdateIndexID: "scan_stable T I \<Longrightarrow> I s \<Longrightarrow> I (UpdateIndexID a s)"
  by (auto simp: UpdateIndexID_def Let_def split: option.splits intro: stable_local)

lemma stable_AddIndexID: "scan_stable T I \<Longrightarrow> I s \<Longrightarrow> I (AddIndexID a s)"
  by (auto simp: AddIndexID_def Let_def intro: stable_local)

lemma stable_RemoveIndexID: "scan_stable T I \<Longrightarrow> I s \<Longrightarrow> I (RemoveIndexID a s)"
  by (auto simp: RemoveIndexID_def Let_def split: option.splits intro: stable_local)

lemma keeps_Inr: "I s \<Longrightarrow> keeps I (Inr s)"
  by simp

lemma if_state: "I a \<Longrightarrow> I b \<Longrightarrow> I (if c then a else b)"
  for I :: "RNDGameState \<Rightarrow> bool"
  by simp

lemmas keeps_struct = keeps_bind keeps_at_map keeps_if keeps_Inr keeps_simps(1)

lemmas stable_prim = stable_SetItem stable_MoveItem stable_set_local stable_agent_pos
  stable_agent_idx stable_UpdateIDIndex stable_UpdateIndexID stable_AddIndexID stable_RemoveIndexID

lemma stable_RollLeft:
  assumes st: "scan_stable T I" and "I s"
  shows "keeps I (RollLeft T index element s)"
  unfolding RollLeft_def using assms(2) by (intro keeps_struct stable_prim [OF st])

lemma stable_RollRight:
  assumes st: "scan_stable T I" and "I s"
  shows "keeps I (RollRight T index element s)"
  unfolding RollRight_def using assms(2) by (intro keeps_struct stable_prim [OF st])

lemma stable_Push:
  assumes st: "scan_stable T I" and "I s"
  shows "keeps I (Push T index stationary falling action s)"
  unfolding Push_def Let_def using assms(2)
  by (intro keeps_struct stable_prim [OF st]) 

lemma stable_MoveThroughMagic:
  assumes st: "scan_stable T I" and "I s"
  shows "keeps I (MoveThroughMagic T index element s)"
  unfolding MoveThroughMagic_def Let_def using assms(2)
  by (intro keeps_struct stable_prim [OF st])

lemma stable_Explode:
  assumes st: "scan_stable T I"
  shows "I s \<Longrightarrow> keeps I (Explode depth T index element action s)"
proof (induction depth arbitrary: index element action s)
  case 0
  then show ?case by simp
next
  case (Suc depth)
  show ?case
    unfolding Explode.simps Let_def using Suc.prems
    by (intro keeps_struct keeps_foldE stable_prim [OF st] if_state [where I = I] Suc.IH)
qed

lemma stable_OpenGate:
  assumes st: "scan_stable T I" and "I s"
  shows "keeps I (OpenGate T element s)"
  unfolding OpenGate_def using assms(2)
  by (intro keeps_struct keeps_foldE stable_prim [OF st])

lemmas stable_aux = stable_RollLeft stable_RollRight stable_Push stable_MoveThroughMagic
  stable_Explode stable_OpenGate


lemma stable_UpdateStoneFalling:
  assumes st: "scan_stable T I" and "I s"
  shows "keeps I (UpdateStoneFalling depth T index s)"
  unfolding UpdateStoneFalling_def using assms(2)
  by (intro keeps_struct stable_prim [OF st] stable_aux [OF st])

lemma stable_UpdateAgent:
  assumes st: "scan_stable T I" and "I s"
  shows "keeps I (UpdateAgent T index action s)"
  unfolding UpdateAgent_def Let_def using assms(2)
  by (intro keeps_struct stable_prim [OF st] stable_aux [OF st])


lemma stable_UpdateStone:
  assumes st: "scan_stable T I" and "I s"
  shows "keeps I (UpdateStone depth T index s)"
  unfolding UpdateStone_def using assms(2)
  by (intro keeps_struct stable_prim [OF st] stable_aux [OF st] stable_UpdateStoneFalling [OF st])

lemma stable_UpdateDiamondFalling:
  assumes st: "scan_stable T I" and "I s"
  shows "keeps I (UpdateDiamondFalling depth T index s)"
  unfolding UpdateDiamondFalling_def using assms(2)
  by (intro keeps_struct stable_prim [OF st] stable_aux [OF st])

lemma stable_UpdateDiamond:
  assumes st: "scan_stable T I" and "I s"
  shows "keeps I (UpdateDiamond depth T index s)"
  unfolding UpdateDiamond_def using assms(2)
  by (intro keeps_struct stable_prim [OF st] stable_aux [OF st] stable_UpdateDiamondFalling [OF st])

lemma stable_UpdateNutFalling:
  assumes st: "scan_stable T I" and "I s"
  shows "keeps I (UpdateNutFalling T index s)"
  unfolding UpdateNutFalling_def using assms(2)
  by (intro keeps_struct stable_prim [OF st] stable_aux [OF st])

lemma stable_UpdateNut:
  assumes st: "scan_stable T I" and "I s"
  shows "keeps I (UpdateNut T index s)"
  unfolding UpdateNut_def using assms(2)
  by (intro keeps_struct stable_prim [OF st] stable_aux [OF st] stable_UpdateNutFalling [OF st])

lemma stable_UpdateBombFalling:
  assumes st: "scan_stable T I" and "I s"
  shows "keeps I (UpdateBombFalling depth T index s)"
  unfolding UpdateBombFalling_def using assms(2)
  by (intro keeps_struct stable_prim [OF st] stable_aux [OF st])

lemma stable_UpdateBomb:
  assumes st: "scan_stable T I" and "I s"
  shows "keeps I (UpdateBomb depth T index s)"
  unfolding UpdateBomb_def using assms(2)
  by (intro keeps_struct stable_prim [OF st] stable_aux [OF st] stable_UpdateBombFalling [OF st])

lemma stable_UpdateExit:
  assumes st: "scan_stable T I" and "I s"
  shows "keeps I (UpdateExit T index s)"
  unfolding UpdateExit_def using assms(2)
  by (intro keeps_struct stable_prim [OF st])

lemma stable_UpdateFirefly:
  assumes st: "scan_stable T I" and "I s"
  shows "keeps I (UpdateFirefly depth T index action s)"
  unfolding UpdateFirefly_def Let_def using assms(2)
  by (intro keeps_struct stable_prim [OF st] stable_aux [OF st])

lemma stable_UpdateButterfly:
  assumes st: "scan_stable T I" and "I s"
  shows "keeps I (UpdateButterfly depth T index action s)"
  unfolding UpdateButterfly_def Let_def using assms(2)
  by (intro keeps_struct stable_prim [OF st] stable_aux [OF st])

lemma stable_UpdateOrange:
  assumes st: "scan_stable T I" and "I s"
  shows "keeps I (UpdateOrange depth T index action s)"
  unfolding UpdateOrange_def Let_def using assms(2)
  by (intro keeps_struct stable_prim [OF st] stable_aux [OF st])

lemma stable_UpdateMagicWall:
  assumes st: "scan_stable T I" and "I s"
  shows "keeps I (UpdateMagicWall T index s)"
  unfolding UpdateMagicWall_def using assms(2)
  by (intro keeps_struct stable_prim [OF st])

lemma stable_UpdateBlob:
  assumes st: "scan_stable T I" and "I s"
  shows "keeps I (UpdateBlob T index s)"
  unfolding UpdateBlob_def Let_def using assms(2)
  by (intro keeps_struct stable_prim [OF st] if_state [where I = I])

lemma stable_UpdateExplosions:
  assumes st: "scan_stable T I" and "I s"
  shows "keeps I (UpdateExplosions T index s)"
  unfolding UpdateExplosions_def using assms(2)
  by (intro keeps_struct stable_prim [OF st])

lemmas stable_updates = stable_UpdateStone stable_UpdateStoneFalling stable_UpdateDiamond
  stable_UpdateDiamondFalling stable_UpdateNut stable_UpdateNutFalling stable_UpdateBomb
  stable_UpdateBombFalling stable_UpdateExit stable_UpdateFirefly stable_UpdateButterfly
  stable_UpdateOrange stable_UpdateMagicWall stable_UpdateBlob stable_UpdateExplosions

lemma stable_update_cell:
  assumes st: "scan_stable T I" and "I s"
  shows "keeps I (update_cell depth T i s)"
  unfolding update_cell_def using assms(2)
  by (cases "grid (board s) ! i")
     (simp_all add: stable_updates [OF st] keeps_at_map)

lemma stable_EndScan: "scan_stable T I \<Longrightarrow> I s \<Longrightarrow> I (EndScan s)"
  unfolding EndScan_def Let_def by (rule stable_local)

text \<open>
  Whatever holds right after \<open>StartScan\<close> and is stable under a scan holds after
  \<open>apply_action\<close>.
\<close>

lemma stable_apply_action:
  assumes st: "scan_stable T I" and "I (StartScan s)"
  shows "keeps I (apply_action depth T action s)"
  unfolding apply_action_def Let_def using assms(2)
  by (intro keeps_struct keeps_foldE stable_UpdateAgent [OF st] stable_update_cell [OF st]
      stable_EndScan [OF st])

section \<open>Zobrist consistency\<close>

lemma xor_list_update:
  "i < length zs \<Longrightarrow> xor_list (zs[i := v]) = xor_list zs XOR zs ! i XOR v"
proof (induction zs arbitrary: i)
  case Nil
  then show ?case by simp
next
  case (Cons z zs)
  show ?case
  proof (cases i)
    case 0
    then show ?thesis by (simp add: ac_simps)
  next
    case (Suc j)
    with Cons show ?thesis by (simp add: ac_simps)
  qed
qed

lemma SetItem_InrE:
  assumes "SetItem T index element action s = Inr s'"
  obtains z1 z2 where
    "0 \<le> IndexFromAction s index action"
    "nat (IndexFromAction s index action) < length (grid (board s))"
    "nat (IndexFromAction s index action) < length (has_updated (board s))"
    "zrbht (shared_state s) (zkey T (board s) (grid (board s) ! nat (IndexFromAction s index action))
        (IndexFromAction s index action)) = Some z1"
    "zrbht (shared_state s) (zkey T (board s) element (IndexFromAction s index action)) = Some z2"
    "s' = s\<lparr>board := (board s)\<lparr>grid := (grid (board s))[nat (IndexFromAction s index action) := element],
                            zorb_hash := zorb_hash (board s) XOR z1 XOR z2,
                            has_updated := (has_updated (board s))[nat (IndexFromAction s index action) := True]\<rparr>\<rparr>"
  using assms
  by (auto simp: SetItem_def Let_def item_def at_map_def bindE_eq_Inr split: if_splits option.splits)

lemma MoveItem_InrE:
  assumes "MoveItem T index action s = Inr s'"
  obtains z1 z2 z3 z4 where
    "0 \<le> IndexFromAction s index action"
    "nat (IndexFromAction s index action) < length (grid (board s))"
    "nat (IndexFromAction s index action) < length (has_updated (board s))"
    "0 \<le> index" "nat index < length (grid (board s))"
    "zrbht (shared_state s) (zkey T (board s) (grid (board s) ! nat (IndexFromAction s index action))
        (IndexFromAction s index action)) = Some z1"
    "zrbht (shared_state s) (zkey T (board s) (grid (board s) ! nat index)
        (IndexFromAction s index action)) = Some z2"
    "zrbht (shared_state s) (zkey T (board s)
        ((grid (board s))[nat (IndexFromAction s index action) := grid (board s) ! nat index] ! nat index)
        index) = Some z3"
    "zrbht (shared_state s) (zkey T (board s) kElEmpty index) = Some z4"
    "s' = UpdateIDIndex index (IndexFromAction s index action)
            (s\<lparr>board := (board s)\<lparr>grid := (grid (board s))[nat (IndexFromAction s index action) := grid (board s) ! nat index, nat index := kElEmpty],
                            zorb_hash := zorb_hash (board s) XOR z1 XOR z2 XOR z3 XOR z4,
                            has_updated := (has_updated (board s))[nat (IndexFromAction s index action) := True]\<rparr>\<rparr>)"
  using assms
  by (auto simp: MoveItem_def Let_def item_def at_map_def bindE_eq_Inr split: if_splits option.splits)

lemma board_UpdateIDIndex [simp]: "board (UpdateIDIndex a b s) = board s"
  and shared_UpdateIDIndex [simp]: "shared_state (UpdateIDIndex a b s) = shared_state s"
  by (simp_all add: UpdateIDIndex_def Let_def split: option.splits)

lemma zkey_update [simp]:
  "zkey T (b\<lparr>grid := g\<rparr>) = zkey T b"
  "zkey T (b\<lparr>zorb_hash := h\<rparr>) = zkey T b"
  "zkey T (b\<lparr>has_updated := u\<rparr>) = zkey T b"
  by (simp_all add: zkey_def fun_eq_iff)

lemma cell_entries_write:
  assumes "cols b' = cols b" "rows b' = rows b" "grid b' = (grid b)[j := el]" "j < length (grid b)"
  shows "cell_entries T sh b' = (cell_entries T sh b)[j := zrbht sh (zkey T b el (int j))]"
  using assms
  by (intro nth_equalityI) (auto simp: cell_entries_def zkey_def nth_list_update)

lemma zobrist_write:
  assumes e: "cell_entries T sh b = map Some zs" and h: "zorb_hash b = xor_list zs"
    and j: "j < length (grid b)"
    and z1: "zrbht sh (zkey T b (grid b ! j) (int j)) = Some z1"
    and z2: "zrbht sh (zkey T b el (int j)) = Some z2"
    and b': "cols b' = cols b" "rows b' = rows b" "grid b' = (grid b)[j := el]"
      "zorb_hash b' = zorb_hash b XOR z1 XOR z2"
  shows "cell_entries T sh b' = map Some (zs[j := z2]) \<and> zorb_hash b' = xor_list (zs[j := z2])"
proof -
  have len: "length zs = length (grid b)"
    using e by (metis cell_entries_def length_map length_upt minus_nat.diff_0)
  have "cell_entries T sh b ! j = zrbht sh (zkey T b (grid b ! j) (int j))"
    using j by (simp add: cell_entries_def)
  with e z1 j len have zj: "zs ! j = z1" by simp
  have "cell_entries T sh b' = (map Some zs)[j := Some z2]"
    using cell_entries_write [OF b'(1,2,3) j, of T sh] e z2 by simp
  then have "cell_entries T sh b' = map Some (zs[j := z2])" by (simp add: map_update)
  moreover have "zorb_hash b' = xor_list (zs[j := z2])"
    using b'(4) h zj j len by (simp add: xor_list_update)
  ultimately show ?thesis by simp
qed

lemma zobrist_SetItem:
  assumes "zobrist_consistent T s" "SetItem T index element action s = Inr s'"
  shows "zobrist_consistent T s'"
proof -
  from assms(1) obtain zs where zs: "cell_entries T (shared_state s) (board s) = map Some zs"
    "zorb_hash (board s) = xor_list zs"
    and len: "int (length (grid (board s))) = cols (board s) * rows (board s)"
    by (auto simp: zobrist_consistent_def)
  from assms(2) show ?thesis
  proof (rule SetItem_InrE)
    fix z1 z2
    let ?ni = "IndexFromAction s index action"
    assume a: "0 \<le> ?ni" "nat ?ni < length (grid (board s))"
      "zrbht (shared_state s) (zkey T (board s) (grid (board s) ! nat ?ni) ?ni) = Some z1"
      "zrbht (shared_state s) (zkey T (board s) element ?ni) = Some z2"
      "s' = s\<lparr>board := (board s)\<lparr>grid := (grid (board s))[nat ?ni := element],
                            zorb_hash := zorb_hash (board s) XOR z1 XOR z2,
                            has_updated := (has_updated (board s))[nat ?ni := True]\<rparr>\<rparr>"
    have "cell_entries T (shared_state s) (board s') = map Some (zs[nat ?ni := z2]) \<and>
          zorb_hash (board s') = xor_list (zs[nat ?ni := z2])"
      using a by (intro zobrist_write [OF zs a(2), where ?z1.0 = z1]) simp_all
    with a(5) len show ?thesis by (auto simp: zobrist_consistent_def)
  qed
qed

lemma zobrist_MoveItem:
  assumes "zobrist_consistent T s" "MoveItem T index action s = Inr s'"
  shows "zobrist_consistent T s'"
proof -
  from assms(1) obtain zs where zs: "cell_entries T (shared_state s) (board s) = map Some zs"
    "zorb_hash (board s) = xor_list zs"
    and len: "int (length (grid (board s))) = cols (board s) * rows (board s)"
    by (auto simp: zobrist_consistent_def)
  from assms(2) show ?thesis
  proof (rule MoveItem_InrE)
    fix z1 z2 z3 z4
    let ?ni = "IndexFromAction s index action"
    let ?g1 = "(grid (board s))[nat ?ni := grid (board s) ! nat index]"
    let ?b1 = "(board s)\<lparr>grid := ?g1, zorb_hash := zorb_hash (board s) XOR z1 XOR z2\<rparr>"
    assume a: "0 \<le> ?ni" "nat ?ni < length (grid (board s))"
      "0 \<le> index" "nat index < length (grid (board s))"
      "zrbht (shared_state s) (zkey T (board s) (grid (board s) ! nat ?ni) ?ni) = Some z1"
      "zrbht (shared_state s) (zkey T (board s) (grid (board s) ! nat index) ?ni) = Some z2"
      "zrbht (shared_state s) (zkey T (board s) (?g1 ! nat index) index) = Some z3"
      "zrbht (shared_state s) (zkey T (board s) kElEmpty index) = Some z4"
      "s' = UpdateIDIndex index ?ni
            (s\<lparr>board := (board s)\<lparr>grid := ?g1[nat index := kElEmpty],
                            zorb_hash := zorb_hash (board s) XOR z1 XOR z2 XOR z3 XOR z4,
                            has_updated := (has_updated (board s))[nat ?ni := True]\<rparr>\<rparr>)"
    have one: "cell_entries T (shared_state s) ?b1 = map Some (zs[nat ?ni := z2]) \<and>
          zorb_hash ?b1 = xor_list (zs[nat ?ni := z2])"
      using a by (intro zobrist_write [OF zs a(2), where ?z1.0 = z1]) simp_all
    have two: "cell_entries T (shared_state s) (board s') = map Some (zs[nat ?ni := z2, nat index := z4]) \<and>
          zorb_hash (board s') = xor_list (zs[nat ?ni := z2, nat index := z4])"
      by (rule zobrist_write [OF conjunct1 [OF one] conjunct2 [OF one], where ?z1.0 = z3 and el = kElEmpty])
         (use a in \<open>simp_all add: ac_simps\<close>)
    with a(9) len show ?thesis by (auto simp: zobrist_consistent_def)
  qed
qed

lemma zobrist_frame:
  assumes "zobrist_consistent T s" "zrbht (shared_state s') = zrbht (shared_state s)"
    "grid (board s') = grid (board s)" "cols (board s') = cols (board s)"
    "rows (board s') = rows (board s)" "zorb_hash (board s') = zorb_hash (board s)"
  shows "zobrist_consistent T s'"
  using assms by (simp add: zobrist_consistent_def cell_entries_def zkey_def)

lemma zobrist_stable: "scan_stable T (zobrist_consistent T)"
  unfolding scan_stable_def
proof (intro conjI allI impI, goal_cases)
  case 1
  then show ?case by (blast intro: zobrist_SetItem)
next
  case 2
  then show ?case by (blast intro: zobrist_MoveItem)
next
  case 3
  then show ?case by (elim zobrist_frame) simp_all
next
  case 4
  then show ?case by (elim zobrist_frame) (simp_all add: set_agent_pos_def)
next
  case 5
  then show ?case by (elim zobrist_frame) (simp_all add: set_agent_idx_def)
qed

lemma zobrist_StartScan: "zobrist_consistent T s \<Longrightarrow> zobrist_consistent T (StartScan s)"
  by (erule zobrist_frame) (simp_all add: StartScan_def Let_def reset_updated_def)

lemma zobrist_apply_action:
  assumes "zobrist_consistent T s" "apply_action depth T action s = Inr s'"
  shows "zobrist_consistent T s'"
  using stable_apply_action [OF zobrist_stable zobrist_StartScan [OF assms(1)], of depth action] assms(2)
  by simp

lemma hash_fold_iff:
  assumes "\<forall>i\<in>set is. i < length (grid b)"
  shows "foldE (\<lambda>i h. bindE (item b (int i)) (\<lambda>cell.
             bindE (at_map (zrbht sh) (zkey T b cell (int i))) (\<lambda>z. Inr (h XOR z)))) is h0 = Inr h
     \<longleftrightarrow> (\<exists>zs. map (\<lambda>i. zrbht sh (zkey T b (grid b ! i) (int i))) is = map Some zs \<and>
               h = h0 XOR xor_list zs)"
  using assms
proof (induction "is" arbitrary: h0)
  case Nil
  then show ?case by auto
next
  case (Cons i "is")
  let ?F = "\<lambda>i h. bindE (item b (int i)) (\<lambda>cell.
             bindE (at_map (zrbht sh) (zkey T b cell (int i))) (\<lambda>z. Inr (h XOR z)))"
  let ?e = "\<lambda>i. zrbht sh (zkey T b (grid b ! i) (int i))"
  have i: "i < length (grid b)" using Cons.prems by simp
  have step: "?F i h0 = Inr h1 \<longleftrightarrow> (\<exists>z. ?e i = Some z \<and> h1 = h0 XOR z)" for h1
    using i by (auto simp: item_def at_map_def split: option.splits)
  have IH: "foldE ?F is h1 = Inr h \<longleftrightarrow> (\<exists>zs. map ?e is = map Some zs \<and> h = h1 XOR xor_list zs)" for h1
    using Cons.IH [of h1] Cons.prems by simp
  show ?case
  proof
    assume "foldE ?F (i # is) h0 = Inr h"
    then obtain h1 where "?F i h0 = Inr h1" "foldE ?F is h1 = Inr h"
      by (auto simp: bindE_eq_Inr)
    then obtain z zs where "?e i = Some z" "h1 = h0 XOR z" "map ?e is = map Some zs"
      "h = h1 XOR xor_list zs"
      using step IH by blast
    then have "map ?e (i # is) = map Some (z # zs) \<and> h = h0 XOR xor_list (z # zs)"
      by (simp add: ac_simps)
    then show "\<exists>zs. map ?e (i # is) = map Some zs \<and> h = h0 XOR xor_list zs" by blast
  next
    assume "\<exists>zs. map ?e (i # is) = map Some zs \<and> h = h0 XOR xor_list zs"
    then obtain zs' where zs': "map ?e (i # is) = map Some zs'" "h = h0 XOR xor_list zs'" by blast
    then obtain z zs where "zs' = z # zs" by (cases zs') auto
    with zs' have "?e i = Some z" "map ?e is = map Some zs" "h = (h0 XOR z) XOR xor_list zs"
      by (simp_all add: ac_simps)
    then have "?F i h0 = Inr (h0 XOR z)" "foldE ?F is (h0 XOR z) = Inr h"
      using step IH by blast+
    then show "foldE ?F (i # is) h0 = Inr h" by simp
  qed
qed

lemma hash_cells_iff:
  assumes "int (length (grid b)) = cols b * rows b"
  shows "hash_cells T sh b h0 = Inr h \<longleftrightarrow>
         (\<exists>zs. cell_entries T sh b = map Some zs \<and> h = h0 XOR xor_list zs)"
proof -
  have "nat (cols b * rows b) = length (grid b)" using assms by simp
  then show ?thesis
    unfolding hash_cells_def cell_entries_def
    by (simp add: hash_fold_iff)
qed

lemma zobrist_consistent_hash_cells:
  "zobrist_consistent T s \<longleftrightarrow>
     int (length (grid (board s))) = cols (board s) * rows (board s) \<and>
     hash_cells T (shared_state s) (board s) 0 = Inr (zorb_hash (board s))"
  by (auto simp: zobrist_consistent_def hash_cells_iff)

lemma parse_board_str_Inr:
  assumes "parse_board_str T tokens = Inr b"
  shows "zorb_hash b = 0" "int (length (grid b)) = cols b * rows b"
    "length (has_updated b) = length (grid b)"
  using assms
  by (auto simp: parse_board_str_def ac_simps split: list.splits option.splits if_splits)

lemma reset_zobrist:
  assumes "reset T s = Inr s'"
  shows "zobrist_consistent T s'"
proof -
  from assms obtain b h sh2 s1 frame where
    p: "parse_board_str T (game_board_str (shared_state s)) = Inr b"
    and h: "hash_cells T sh2 b (zorb_hash b) = Inr h"
    and s': "s' = s1\<lparr>shared_state := sh2\<lparr>in_bounds_board := frame,
                                      board_to_inbounds := build_board_to_inbounds b\<rparr>,
                board := b\<lparr>zorb_hash := h\<rparr>\<rparr>"
    by (auto simp: reset_def Let_def bindE_eq_Inr)
  from h parse_board_str_Inr [OF p] obtain zs where
    "cell_entries T sh2 b = map Some zs" "h = xor_list zs"
    by (auto simp: hash_cells_iff)
  then show ?thesis
    using s' parse_board_str_Inr [OF p]
    by (auto simp: zobrist_consistent_def cell_entries_def zkey_def)
qed

lemma reachable_zobrist: "reachable T ps s \<Longrightarrow> zobrist_consistent T s"
proof (induction rule: reachable.induct)
  case (constructed s)
  then show ?case by (auto simp: RNDGameState_new_def bindE_eq_Inr intro: reset_zobrist)
next
  case (stepped s depth action s')
  then show ?case by (blast intro: zobrist_apply_action)
next
  case (reset_again s s')
  then show ?case by (blast intro: reset_zobrist)
qed

text \<open>
  Claim C8. In every state reachable from the constructor by \<open>apply_action\<close> (and
  \<open>reset\<close>), the grid has \<open>rows * cols\<close> cells and the hash recomputed from scratch, the
  XOR over all cells \<open>i\<close> of \<open>zrbht[cell(i) * N + i]\<close>, succeeds and equals the
  incrementally maintained \<open>zorb_hash\<close>.
\<close>

theorem zorb_hash_recomputed:
  "reachable T ps s \<Longrightarrow>
     int (length (grid (board s))) = cols (board s) * rows (board s) \<and>
     hash_cells T (shared_state s) (board s) 0 = Inr (zorb_hash (board s))"
  using reachable_zobrist [of T ps s] by (simp add: zobrist_consistent_hash_cells)

theorem zorb_hash_recomputed_witness:
  "(case bindE (RNDGameState_new kTables kDefaultGameParams) (apply_action 4 kTables 2) of
      Inl e \<Rightarrow> False
    | Inr s \<Rightarrow> grid (board s) = [kElEmpty, kElAgent, kElEmpty, kElExitOpen] \<and>
               hash_cells kTables (shared_state s) (board s) 0 = Inr (zorb_hash (board s)))"
proof -
  have run: "(case bindE (RNDGameState_new kTables kDefaultGameParams) (apply_action 4 kTables 2) of
      Inl e \<Rightarrow> False
    | Inr s \<Rightarrow> grid (board s) = [kElEmpty, kElAgent, kElEmpty, kElExitOpen])"
    by code_simp
  then obtain s0 s1 where s0: "RNDGameState_new kTables kDefaultGameParams = Inr s0"
    and s1: "apply_action 4 kTables 2 s0 = Inr s1"
    by (auto simp: bindE_eq_Inr split: sum.splits)
  have "reachable kTables kDefaultGameParams s1"
    using s0 s1 by (blast intro: reachable.intros)
  from zorb_hash_recomputed [OF this] run s0 s1 show ?thesis by simp
qed

section \<open>Marked cells\<close>

lemma marks_SetItem:
  assumes "marks_changes g0 s" "SetItem T index element action s = Inr s'"
  shows "marks_changes g0 s'"
  using assms(2)
proof (rule SetItem_InrE)
  fix z1 z2
  let ?ni = "nat (IndexFromAction s index action)"
  assume "?ni < length (grid (board s))" "?ni < length (has_updated (board s))"
    "s' = s\<lparr>board := (board s)\<lparr>grid := (grid (board s))[?ni := element],
                            zorb_hash := zorb_hash (board s) XOR z1 XOR z2,
                            has_updated := (has_updated (board s))[?ni := True]\<rparr>\<rparr>"
  with assms(1) show ?thesis
    by (auto simp: marks_changes_def nth_list_update)
qed

lemma marks_MoveItem:
  assumes "marks_changes g0 s" "MoveItem T index action s = Inr s'"
  shows "marks_changes g0 s'"
  using assms(2)
proof (rule MoveItem_InrE)
  fix z1 z2 z3 z4
  let ?ni = "nat (IndexFromAction s index action)"
  assume "?ni < length (grid (board s))" "?ni < length (has_updated (board s))"
    "nat index < length (grid (board s))"
    "s' = UpdateIDIndex index (IndexFromAction s index action)
            (s\<lparr>board := (board s)\<lparr>grid := (grid (board s))[?ni := grid (board s) ! nat index, nat index := kElEmpty],
                            zorb_hash := zorb_hash (board s) XOR z1 XOR z2 XOR z3 XOR z4,
                            has_updated := (has_updated (board s))[?ni := True]\<rparr>\<rparr>)"
  with assms(1) show ?thesis
    by (auto simp: marks_changes_def nth_list_update)
qed

lemma marks_stable: "scan_stable T (marks_changes g0)"
  unfolding scan_stable_def
proof (intro conjI allI impI, goal_cases)
  case 1
  then show ?case by (blast intro: marks_SetItem)
next
  case 2
  then show ?case by (blast intro: marks_MoveItem)
next
  case 3
  then show ?case by (simp add: marks_changes_def)
next
  case 4
  then show ?case by (simp add: marks_changes_def set_agent_pos_def)
next
  case 5
  then show ?case by (simp add: marks_changes_def set_agent_idx_def)
qed

lemma StartScan_board:
  "grid (board (StartScan s)) = grid (board s)"
  "has_updated (board (StartScan s)) = map (\<lambda>u. False) (has_updated (board s))"
  by (simp_all add: StartScan_def Let_def reset_updated_def)

text \<open>
  Claim C6, as amended. Every \<open>has_updated[i]\<close> is false right after \<open>StartScan\<close>, which
  leaves the grid as it is. At the end of the scan every cell whose content differs from
  its content at the start of the scan is marked, unless it now holds \<open>kElEmpty\<close>: the
  cell a \<open>MoveItem\<close> vacates is written but not marked.
\<close>

theorem apply_action_marks_changes:
  "apply_action depth T action s = Inr s' \<Longrightarrow>
     (\<forall>i < length (has_updated (board (StartScan s))). \<not> has_updated (board (StartScan s)) ! i) \<and>
     grid (board (StartScan s)) = grid (board s) \<and>
     length (grid (board s')) = length (grid (board s)) \<and>
     (\<forall>i < length (grid (board s)).
         grid (board s') ! i \<noteq> grid (board s) ! i \<longrightarrow>
           (i < length (has_updated (board s')) \<and> has_updated (board s') ! i) \<or>
           grid (board s') ! i = kElEmpty)"
proof -
  assume run: "apply_action depth T action s = Inr s'"
  have "marks_changes (grid (board s)) (StartScan s)"
    by (simp add: marks_changes_def StartScan_board)
  from stable_apply_action [OF marks_stable this, where depth = depth and action = action and T = T] run
  have "marks_changes (grid (board s)) s'" by simp
  then show ?thesis by (simp add: marks_changes_def StartScan_board)
qed

theorem apply_action_marks_changes_witness:
  "(case observe (bindE (RNDGameState_new kTables kDefaultGameParams) (apply_action 4 kTables 2)) of
      Inl e \<Rightarrow> False
    | Inr r \<Rightarrow> r = ([kElEmpty, kElAgent, kElEmpty, kElExitOpen], [False, True, False, False], 1, False))"
proof -
  have run: "(case observe (bindE (RNDGameState_new kTables kDefaultGameParams) (apply_action 4 kTables 2)) of
      Inl e \<Rightarrow> False
    | Inr r \<Rightarrow> r = ([kElEmpty, kElAgent, kElEmpty, kElExitOpen], [False, True, False, False], 1, False))"
    by code_simp
  then obtain s0 s1 where s0: "RNDGameState_new kTables kDefaultGameParams = Inr s0"
    and s1: "apply_action 4 kTables 2 s0 = Inr s1"
    by (auto simp: observe_def bindE_eq_Inr split: sum.splits)
  note apply_action_marks_changes [OF s1]
  with run show ?thesis by simp
qed

text \<open>
  On the board \<open>1|3|-1|0|0|1|21\<close> (agent, empty, expired magic wall) the action Right
  moves the agent: cell 0 changes from the agent to empty and stays unmarked, and the
  wall's cell is marked although it is rewritten with the element it held.
\<close>

theorem has_updated_misses_vacated_cell:
  "(case bindE (RNDGameState_new kTables (kDefaultGameParams\<lparr>p_game_board_str := [1, 3, -1, 0, 0, 1, 21]\<rparr>))
           (\<lambda>s. bindE (apply_action 4 kTables 2 s) (\<lambda>s'.
              Inr (grid (board s), grid (board s'), has_updated (board s')))) of
      Inl e \<Rightarrow> False
    | Inr r \<Rightarrow> r = ([kElAgent, kElEmpty, kElWallMagicExpired],
                     [kElEmpty, kElAgent, kElWallMagicExpired],
                     [False, True, True]))"
  by code_simp

section \<open>The falling stone\<close>

text \<open>
  The constructor of \<open>LocalState\<close> sets \<open>magic_wall_steps\<close> to 0 and \<open>reset\<close> does not copy
  the shared value into it, so the local counter is 0 after every \<open>reset\<close>; with the counter
  at 0, \<open>MoveThroughMagic\<close> returns at its first test.
\<close>

lemma AddIndexID_magic_wall_steps [simp]:
  "magic_wall_steps (local_state (AddIndexID i s)) = magic_wall_steps (local_state s)"
  by (simp add: AddIndexID_def Let_def set_local_def)

lemma fold_AddIndexID_magic_wall_steps [simp]:
  "magic_wall_steps (local_state (fold (\<lambda>i. AddIndexID (int i)) is s)) =
     magic_wall_steps (local_state s)"
  by (induction "is" arbitrary: s) simp_all

lemma reset_magic_wall_steps:
  assumes "reset T s = Inr s'"
  shows "magic_wall_steps (local_state s') = 0"
  using assms
  by (auto simp: reset_def Let_def bindE_def LocalState_new_def split: sum.splits)

lemma MoveThroughMagic_expired:
  "MoveThroughMagic T index element (set_local (\<lambda>l. l\<lparr>magic_wall_steps := 0\<rparr>) s) =
     Inr (set_local (\<lambda>l. l\<lparr>magic_wall_steps := 0\<rparr>) s)"
  by (simp add: MoveThroughMagic_def set_local_def)

text \<open>
  Claim C5. A falling stone above a magic wall that is on or dormant should pass through
  the wall and come out as a diamond. With the default parameters (140 magic-wall steps)
  and the board \<open>3|2|-1|0|4|0|19|18|1|18\<close>, the shared counter is 140 and the local one is 0.
  For the stone at cell 0 the tests of \<open>UpdateStoneFalling\<close> fail for an empty cell and for
  an explodable cell below and succeed for the dormant magic wall, and the table converts a
  falling stone into a diamond; yet the call leaves the grid, the marks and the magic flag
  as they were, and after the whole step the stone is still above the wall, the cell under
  the wall is still empty and the wall has expired. The same call on the same state with
  the local counter set to 140 empties cell 0, puts the diamond under the wall and turns
  the magic flag on.
\<close>

theorem UpdateStoneFalling_magic_wall_no_diamond:
  "(case RNDGameState_new kTables magic_column of
      Inl e \<Rightarrow> False
    | Inr s \<Rightarrow>
        sh_magic_wall_steps (shared_state s) = 140 \<and>
        magic_wall_steps (local_state s) = 0 \<and>
        grid (board s) =
          [kElStoneFalling, kElAgent, kElWallMagicDormant, kElWall, kElEmpty, kElWall] \<and>
        map (\<lambda>e. IsType s 0 e kDown) [kElEmpty, kElWallMagicOn, kElWallMagicDormant] =
          [False, False, True] \<and>
        HasProperty kTables s 0 kCanExplode kDown = False \<and>
        kMagicWallConversion kTables (GetItem s 0 kNoop) = Some kElDiamond \<and>
        observe (UpdateStoneFalling 4 kTables 0 s) =
          Inr ([kElStoneFalling, kElAgent, kElWallMagicDormant, kElWall, kElEmpty, kElWall],
               [False, False, False, False, False, False], 1, False) \<and>
        observe (UpdateStoneFalling 4 kTables 0
                   (set_local (\<lambda>l. l\<lparr>magic_wall_steps := 140\<rparr>) s)) =
          Inr ([kElEmpty, kElAgent, kElWallMagicDormant, kElWall, kElDiamond, kElWall],
               [True, False, False, False, True, False], 1, True) \<and>
        observe (apply_action 4 kTables 0 s) =
          Inr ([kElStoneFalling, kElAgent, kElWallMagicExpired, kElWall, kElEmpty, kElWall],
               [False, False, True, False, False, False], 1, False))"
  by code_simp

section \<open>What the search expands\<close>

subsection \<open>Three rounds on a column with a stone\<close>






subsection \<open>Pushing a batch\<close>

lemma push_predicted_closed [simp]:
  "closed_set (push_predicted beq cp st) = closed_set st"
  by (simp add: push_predicted_def Let_def)

lemma push_predicted_state [simp]:
  "n_state (node_buffer (push_predicted beq cp st) ! i) = n_state (node_buffer st ! i)"
proof (cases "i = fst cp")
  case False
  then show ?thesis by (simp add: push_predicted_def Let_def)
next
  case True
  show ?thesis
    by (cases "fst cp < length (node_buffer st)")
       (simp_all add: True push_predicted_def Let_def not_less list_update_beyond)
qed









end
